theory Spec2Isabelle
  imports Complex_Main "HOL-Library.AList" "HOL-Library.Log_Nat" "HOL-Library.Word"
begin

section \<open>JavaScript values\<close>

text \<open>
  A JavaScript number is a double (IEEE 754 binary64). A finite double is kept as the
  rational it denotes, and the three special values apart. Every arithmetic result is
  rounded as the machine rounds it: to the nearest double, a tie to the one with an
  even significand, past the largest double to infinity. The sign of zero is not kept.
\<close>

datatype number = Finite rat | NaN | PosInf | NegInf

definition pow2 :: "int \<Rightarrow> rat" where
  "pow2 k = (if 0 \<le> k then 2 ^ nat k else 1 / 2 ^ nat (- k))"

text \<open>The exponent of a positive rational: \<open>pow2 e \<le> a < pow2 (e + 1)\<close>.\<close>

definition floor_log2 :: "rat \<Rightarrow> int" where
  "floor_log2 a =
     (let d = bitlen (fst (quotient_of a)) - bitlen (snd (quotient_of a))
      in if pow2 d \<le> a then d else d - 1)"

definition round_half_even :: "rat \<Rightarrow> int" where
  "round_half_even q =
     (let n = \<lfloor>q\<rfloor>; r = q - of_int n
      in if r < 1 / 2 then n else if 1 / 2 < r then n + 1 else if even n then n else n + 1)"

text \<open>
  Rounding to a double: 53 significant bits for exponents from \<open>-1022\<close> to \<open>1023\<close>,
  multiples of \<open>pow2 (-1074)\<close> below that.
\<close>

definition round_double :: "rat \<Rightarrow> number" where
  "round_double x =
     (if x = 0 then Finite 0
      else
        (let a = \<bar>x\<bar>;
             e = floor_log2 a;
             u = pow2 (max e (- 1022) - 52);
             n = round_half_even (a / u)
         in if 1023 < e \<or> (e = 1023 \<and> n = 2 ^ 53) then (if 0 < x then PosInf else NegInf)
            else Finite (if 0 < x then of_int n * u else - (of_int n * u))))"

fun num_add :: "number \<Rightarrow> number \<Rightarrow> number" where
  "num_add NaN y = NaN"
| "num_add x NaN = NaN"
| "num_add (Finite a) (Finite b) = round_double (a + b)"
| "num_add PosInf NegInf = NaN"
| "num_add NegInf PosInf = NaN"
| "num_add PosInf y = PosInf"
| "num_add NegInf y = NegInf"
| "num_add (Finite a) y = y"

fun num_mul :: "number \<Rightarrow> number \<Rightarrow> number" where
  "num_mul NaN y = NaN"
| "num_mul x NaN = NaN"
| "num_mul (Finite a) (Finite b) = round_double (a * b)"
| "num_mul (Finite a) PosInf = (if a = 0 then NaN else if 0 < a then PosInf else NegInf)"
| "num_mul (Finite a) NegInf = (if a = 0 then NaN else if 0 < a then NegInf else PosInf)"
| "num_mul PosInf (Finite b) = (if b = 0 then NaN else if 0 < b then PosInf else NegInf)"
| "num_mul NegInf (Finite b) = (if b = 0 then NaN else if 0 < b then NegInf else PosInf)"
| "num_mul PosInf PosInf = PosInf"
| "num_mul NegInf NegInf = PosInf"
| "num_mul PosInf NegInf = NegInf"
| "num_mul NegInf PosInf = NegInf"

text \<open>Division; a zero divisor is taken as positive zero.\<close>

fun num_div :: "number \<Rightarrow> number \<Rightarrow> number" where
  "num_div NaN y = NaN"
| "num_div x NaN = NaN"
| "num_div (Finite a) (Finite b) =
     (if b = 0 then (if a = 0 then NaN else if 0 < a then PosInf else NegInf)
      else round_double (a / b))"
| "num_div (Finite a) y = Finite 0"
| "num_div PosInf (Finite b) = (if 0 \<le> b then PosInf else NegInf)"
| "num_div NegInf (Finite b) = (if 0 \<le> b then NegInf else PosInf)"
| "num_div x y = NaN"

text \<open>\<open>x >= y\<close> and \<open>x > y\<close> on numbers: false whenever an operand is NaN.\<close>

fun num_ge :: "number \<Rightarrow> number \<Rightarrow> bool" where
  "num_ge NaN y = False"
| "num_ge x NaN = False"
| "num_ge (Finite a) (Finite b) = (b \<le> a)"
| "num_ge PosInf y = True"
| "num_ge x NegInf = True"
| "num_ge x PosInf = False"
| "num_ge NegInf y = False"

fun num_gt :: "number \<Rightarrow> number \<Rightarrow> bool" where
  "num_gt NaN y = False"
| "num_gt x NaN = False"
| "num_gt (Finite a) (Finite b) = (b < a)"
| "num_gt PosInf PosInf = False"
| "num_gt PosInf y = True"
| "num_gt NegInf y = False"
| "num_gt (Finite a) NegInf = True"
| "num_gt (Finite a) PosInf = False"

fun Math_floor :: "number \<Rightarrow> number" where
  "Math_floor (Finite a) = Finite (of_int \<lfloor>a\<rfloor>)"
| "Math_floor x = x"

text \<open>
  Values as \<open>JSON.parse\<close> builds them and as the worksheet cells hold them, with
  \<open>undefined\<close> for what a property read can give. An object is the list of its own
  properties in insertion order.
\<close>

datatype jsval =
    JUndefined
  | JNull
  | JBool bool
  | JNum number
  | JStr string
  | JArr "jsval list"
  | JObj "(string \<times> jsval) list"

datatype exn = TypeError | SyntaxError | Error string

definition nullish :: "jsval \<Rightarrow> bool" where
  "nullish v = (v = JUndefined \<or> v = JNull)"

definition primitive :: "jsval \<Rightarrow> bool" where
  "primitive v = (case v of JArr xs \<Rightarrow> False | JObj kvs \<Rightarrow> False | _ \<Rightarrow> True)"

text \<open>
  \<open>field v k\<close> is the value of \<open>v.k\<close> when \<open>v\<close> is neither \<open>null\<close> nor
  \<open>undefined\<close>, for the property names this program reads (none of them is defined on
  the prototypes of strings, numbers, booleans, arrays or objects).
\<close>

definition field :: "jsval \<Rightarrow> string \<Rightarrow> jsval" where
  "field v k =
     (case v of
        JObj kvs \<Rightarrow> (case map_of kvs k of Some x \<Rightarrow> x | None \<Rightarrow> JUndefined)
      | _ \<Rightarrow> JUndefined)"

text \<open>\<open>v.k\<close>: a TypeError when \<open>v\<close> is \<open>null\<close> or \<open>undefined\<close>.\<close>

definition get_prop :: "jsval \<Rightarrow> string \<Rightarrow> exn + jsval" where
  "get_prop v k = (if nullish v then Inl TypeError else Inr (field v k))"

text \<open>\<open>v?.k\<close>: \<open>undefined\<close> when \<open>v\<close> is \<open>null\<close> or \<open>undefined\<close>.\<close>

definition opt_prop :: "jsval \<Rightarrow> string \<Rightarrow> jsval" where
  "opt_prop v k = (if nullish v then JUndefined else field v k)"

definition truthy :: "jsval \<Rightarrow> bool" where
  "truthy v =
     (case v of
        JUndefined \<Rightarrow> False
      | JNull \<Rightarrow> False
      | JBool b \<Rightarrow> b
      | JNum n \<Rightarrow> n \<noteq> Finite 0 \<and> n \<noteq> NaN
      | JStr s \<Rightarrow> s \<noteq> []
      | _ \<Rightarrow> True)"

text \<open>
  \<open>a === b\<close>. Where the program compares two values that are not literals
  (\<open>ownerWallet === ata\<close>), either both are the same reference or one is a string, so
  equality of the values decides it; \<open>NaN\<close> is not equal to itself.
\<close>

definition strict_eq :: "jsval \<Rightarrow> jsval \<Rightarrow> bool" where
  "strict_eq a b = (a = b \<and> a \<noteq> JNum NaN)"

text \<open>
  Conversion of a value to a string (in a template literal, in \<open>parseFloat\<close>, in a
  comparison with a number) throws a TypeError exactly when the value is an object with
  an own property \<open>toString\<close> (a parsed value is never callable), or an array with
  such an element.
\<close>

fun toString_throws :: "jsval \<Rightarrow> bool" where
  "toString_throws (JObj kvs) = (''toString'' \<in> fst ` set kvs)"
| "toString_throws (JArr xs) = list_ex toString_throws xs"
| "toString_throws v = False"

section \<open>The environment\<close>

text \<open>
  What the program does not decide itself: the configuration flag, the outcome of each
  write of the file, the RPC answers, the timer, and the built-in conversions between
  strings and numbers (taken as they are, since every result below holds for any of
  them).
\<close>

record accountInfo =
  info_owner :: string
  info_data :: "8 word list"

record env =
  ENABLE_REFUNDS :: bool
  writeFileSync_ok :: "nat \<Rightarrow> bool"
  ToString :: "jsval \<Rightarrow> string"
  StringToNumber :: "string \<Rightarrow> number"
  StringToFloatPrefix :: "string \<Rightarrow> number"
  PublicKey_ok :: "jsval \<Rightarrow> bool"
  PublicKey_toString :: "8 word list \<Rightarrow> string"
  getAccountInfo :: "jsval \<Rightarrow> exn + accountInfo option"
  getBalance :: "exn + nat"
  sendAndConfirmTransaction :: "jsval \<Rightarrow> number \<Rightarrow> exn + string"
  timer_late :: "int \<Rightarrow> nat"

text \<open>
  \<open>ENABLE_REFUNDS\<close> is \<open>config.enableRefunds\<close>; \<open>writeFileSync_ok e n\<close> says whether
  the \<open>n\<close>-th call of \<open>XLSX.writeFileSync\<close> returns (it throws otherwise);
  \<open>PublicKey_ok e v\<close> says whether \<open>new PublicKey(v)\<close> returns; \<open>PublicKey_toString\<close>
  is the base-58 text of a key given by its bytes; \<open>getBalance\<close> is the treasury balance
  in lamports; \<open>timer_late e t\<close> is how many milliseconds after the requested time
  \<open>t\<close> a timeout fires.
\<close>

text \<open>\<open>ToNumber\<close>, as the comparison \<open>solAmount > 0\<close> applies it.\<close>

definition to_number :: "env \<Rightarrow> jsval \<Rightarrow> number" where
  "to_number e v =
     (case v of
        JUndefined \<Rightarrow> NaN
      | JNull \<Rightarrow> Finite 0
      | JBool b \<Rightarrow> (if b then Finite 1 else Finite 0)
      | JNum n \<Rightarrow> n
      | JStr s \<Rightarrow> StringToNumber e s
      | _ \<Rightarrow> StringToNumber e (ToString e v))"

text \<open>
  \<open>parseFloat(v)\<close>: the value is converted to a string, whose longest numeric prefix is
  read. A number is read back as itself.
\<close>

definition parseFloat :: "env \<Rightarrow> jsval \<Rightarrow> exn + number" where
  "parseFloat e v =
     (if toString_throws v then Inl TypeError
      else case v of
        JNum n \<Rightarrow> Inr n
      | JStr s \<Rightarrow> Inr (StringToFloatPrefix e s)
      | _ \<Rightarrow> Inr (StringToFloatPrefix e (ToString e v)))"

section \<open>The ledger\<close>

text \<open>
  A record of the sheet \<open>Trades\<close> is an object with the columns \<open>ATA\<close>,
  \<open>sol_buy_amount\<close>, \<open>status\<close> and \<open>solscan_link\<close>. This section describes the
  ledger by its records: the worksheet is given by the array of records that
  \<open>XLSX.utils.sheet_to_json\<close> reads from it and that \<open>XLSX.utils.json_to_sheet\<close>
  writes into it. That view is the one of the ledger operations on records whose values
  are strings, numbers and booleans, which the library gives back as they were stored;
  what the library does cell by cell, with values of any kind, is the subject of the
  section on the worksheet below, and the two are compared there. The store holds the
  workbook in memory, the workbook that the last successful write handed to the file
  \<open>trades.xlsx\<close> (\<open>None\<close> when there is no file), the set \<open>uniqueWallets\<close>, and the
  number of writes attempted so far.
\<close>

type_synonym row = "(string \<times> jsval) list"

record store =
  workbook :: "row list"
  disk :: "row list option"
  uniqueWallets :: "jsval set"
  writes :: nat

definition sheet_to_json :: "row list \<Rightarrow> row list" where
  "sheet_to_json ws = ws"

definition json_to_sheet :: "row list \<Rightarrow> row list" where
  "json_to_sheet trades = trades"

definition MAX_WRITE_RETRIES :: nat where
  "MAX_WRITE_RETRIES = 3"

text \<open>\<open>XLSX.writeFileSync(workbook, OUTPUT_FILE)\<close>: \<open>False\<close> when it throws.\<close>

definition writeFileSync :: "env \<Rightarrow> store \<Rightarrow> bool \<times> store" where
  "writeFileSync e s =
     (if writeFileSync_ok e (writes s)
      then (True, s\<lparr>disk := Some (workbook s), writes := writes s + 1\<rparr>)
      else (False, s\<lparr>writes := writes s + 1\<rparr>))"

text \<open>
  The retry loop that ends both \<open>appendTradeToExcel\<close> and \<open>updateExcelRow\<close>. The
  result is the truth value of what the function returns (falling out of the loop would
  return \<open>undefined\<close>).
\<close>

function write_retries :: "env \<Rightarrow> nat \<Rightarrow> store \<Rightarrow> bool \<times> store" where
  "write_retries e retries s =
     (if retries < MAX_WRITE_RETRIES then
        (case writeFileSync e s of
           (True, s') \<Rightarrow> (True, s')
         | (False, s') \<Rightarrow>
             if retries = MAX_WRITE_RETRIES - 1 then (False, s')
             else write_retries e (retries + 1) s')
      else (False, s))"
  by pat_completeness auto
termination
  by (relation "measure (\<lambda>(e, retries, s). MAX_WRITE_RETRIES - retries)") auto

definition new_trade :: "jsval \<Rightarrow> jsval \<Rightarrow> row" where
  "new_trade ata solAmount =
     [(''ATA'', ata), (''sol_buy_amount'', solAmount),
      (''status'', JNum (Finite 0)), (''solscan_link'', JStr [])]"

definition appendTradeToExcel :: "env \<Rightarrow> jsval \<Rightarrow> jsval \<Rightarrow> store \<Rightarrow> bool \<times> store" where
  "appendTradeToExcel e ata solAmount s =
     (let trades = sheet_to_json (workbook s);
          trades = trades @ [new_trade ata solAmount];
          newWs = json_to_sheet trades
      in write_retries e 0 (s\<lparr>workbook := newWs\<rparr>))"

text \<open>
  \<open>{ ...a, ...b }\<close>: the properties of \<open>a\<close>, each overwritten by \<open>b\<close>'s value when
  \<open>b\<close> has it, followed by the properties only \<open>b\<close> has.
\<close>

definition spread :: "row \<Rightarrow> row \<Rightarrow> row" where
  "spread a b = fold (\<lambda>(k, v). AList.update k v) b a"

text \<open>
  \<open>trades[index]\<close> is \<open>undefined\<close> past the end of the array, and spreading
  \<open>undefined\<close> gives no property. Assigning past the end extends the array; the
  indices skipped are holes, for which \<open>json_to_sheet\<close> writes rows without cells and
  \<open>sheet_to_json\<close> reads no record, so that the new record is the one after the last.
\<close>

definition array_get :: "row list \<Rightarrow> nat \<Rightarrow> row" where
  "array_get trades index = (if index < length trades then trades ! index else [])"

definition array_set :: "row list \<Rightarrow> nat \<Rightarrow> row \<Rightarrow> row list" where
  "array_set trades index r =
     (if index < length trades then trades[index := r] else trades @ [r])"

definition updateExcelRow :: "env \<Rightarrow> nat \<Rightarrow> row \<Rightarrow> store \<Rightarrow> bool \<times> store" where
  "updateExcelRow e index updates s =
     (let trades = sheet_to_json (workbook s);
          trades = array_set trades index (spread (array_get trades index) updates);
          newWs = json_to_sheet trades
      in write_retries e 0 (s\<lparr>workbook := newWs\<rparr>))"

section \<open>Rate limiter of the owner-wallet resolution\<close>

text \<open>
  The limiter is the pair of module variables \<open>requestCount\<close> and \<open>lastResetTime\<close>
  together with the first lines of \<open>rateLimitedGetOwnerWallet\<close>. Times are the
  millisecond readings of \<open>Date.now()\<close>, modelled as integers.
\<close>

record limiter =
  requestCount :: nat
  lastResetTime :: int

definition RATE_LIMIT_PER_SECOND :: nat where
  "RATE_LIMIT_PER_SECOND = 9"

definition RATE_LIMIT_INTERVAL :: int where
  "RATE_LIMIT_INTERVAL = 1000"

datatype slot = Granted | Wait int

text \<open>
  One entry into \<open>rateLimitedGetOwnerWallet\<close> at clock reading \<open>now\<close>: the window
  reset, then either the slot is taken (\<open>requestCount++\<close>) or the caller is told how long
  to sleep before it calls again.
\<close>

definition acquire :: "int \<Rightarrow> limiter \<Rightarrow> slot \<times> limiter" where
  "acquire now l =
     (let l1 = (if now - lastResetTime l \<ge> RATE_LIMIT_INTERVAL
                then l\<lparr>requestCount := 0, lastResetTime := now\<rparr> else l)
      in if requestCount l1 \<ge> RATE_LIMIT_PER_SECOND
         then (Wait (RATE_LIMIT_INTERVAL - (now - lastResetTime l1)), l1)
         else (Granted, l1\<lparr>requestCount := requestCount l1 + 1\<rparr>))"




section \<open>Resolution of the owner wallet\<close>

definition TOKEN_PROGRAM_IDS :: "string list" where
  "TOKEN_PROGRAM_IDS =
     [''TokenkegQfeZyiNwAJbNbGKPFXCWuBvf9Ss623VQ5DA'',
      ''TokenzQdBNbLqP5VEhdkAS6EPFLC1PHnBqCXEpPxuEb'']"

text \<open>The body of the \<open>try\<close> block of \<open>rateLimitedGetOwnerWallet\<close>.\<close>

definition getOwnerWallet_try :: "env \<Rightarrow> jsval \<Rightarrow> exn + jsval" where
  "getOwnerWallet_try e ataAddress =
     (if \<not> PublicKey_ok e ataAddress then Inl (Error ''Invalid public key input'')
      else case getAccountInfo e ataAddress of
          Inl x \<Rightarrow> Inl x
        | Inr None \<Rightarrow> Inr ataAddress
        | Inr (Some accountInfo) \<Rightarrow>
            if info_owner accountInfo \<in> set TOKEN_PROGRAM_IDS
            then Inr (JStr (PublicKey_toString e (take 32 (drop 32 (info_data accountInfo)))))
            else Inr ataAddress)"

text \<open>The \<open>try\<close> block with its \<open>catch\<close>, which returns the input.\<close>

definition getOwnerWallet :: "env \<Rightarrow> jsval \<Rightarrow> exn + jsval" where
  "getOwnerWallet e ataAddress =
     (case getOwnerWallet_try e ataAddress of
        Inl error \<Rightarrow> Inr ataAddress
      | Inr wallet \<Rightarrow> Inr wallet)"

text \<open>
  The whole function, entered at clock reading \<open>now\<close>. When no slot is free it sleeps
  for the rest of the window and calls itself; the timer fires at the requested time or
  later. The limiter is not touched by anyone else during the sleep.
\<close>

function rateLimitedGetOwnerWallet ::
  "env \<Rightarrow> int \<Rightarrow> jsval \<Rightarrow> limiter \<Rightarrow> (exn + jsval) \<times> limiter" where
  "rateLimitedGetOwnerWallet e now ataAddress l =
     (case acquire now l of
        (Wait d, l1) \<Rightarrow>
          rateLimitedGetOwnerWallet e (now + d + int (timer_late e (now + d))) ataAddress l1
      | (Granted, l1) \<Rightarrow> (getOwnerWallet e ataAddress, l1))"
  by pat_completeness auto
termination
proof (relation "measure (\<lambda>(e, now, ataAddress, l). if fst (acquire now l) = Granted then 0 else 1)",
    goal_cases)
  case 1
  show ?case by simp
next
  case (2 e now ataAddress l x1 l1 d)
  then show ?case
    by (auto simp: acquire_def Let_def RATE_LIMIT_INTERVAL_def RATE_LIMIT_PER_SECOND_def
        split: if_splits)
qed

section \<open>The refund cycle\<close>

text \<open>
  What one run of \<open>processRefunds\<close> did: the exception that ended it (the promise is
  rejected), the calls of \<open>sendAndConfirmTransaction\<close> with payee and lamports, the
  calls of \<open>updateExcelRow\<close> with index and fields, and the store and limiter it
  leaves. The run is taken in one piece: other handlers that could run while it awaits
  an answer are not interleaved with it here.
\<close>

record outcome =
  thrown :: "exn option"
  transfers :: "(jsval \<times> number) list"
  updated :: "(nat \<times> row) list"
  store_after :: store
  limiter_after :: limiter

definition quiet :: "store \<Rightarrow> limiter \<Rightarrow> outcome" where
  "quiet s l = \<lparr>thrown = None, transfers = [], updated = [], store_after = s, limiter_after = l\<rparr>"

definition rejected :: "exn \<Rightarrow> store \<Rightarrow> limiter \<Rightarrow> outcome" where
  "rejected x s l = \<lparr>thrown = Some x, transfers = [], updated = [], store_after = s, limiter_after = l\<rparr>"

definition row_field :: "row \<Rightarrow> string \<Rightarrow> jsval" where
  "row_field r k = field (JObj r) k"

definition requiredBalance :: "number \<Rightarrow> number" where
  "requiredBalance solBuyAmount = num_add (Finite 2) (num_mul (Finite 2) solBuyAmount)"

definition refund_updates :: "string \<Rightarrow> row" where
  "refund_updates signature =
     [(''status'', JNum (Finite 1)), (''solscan_link'', JStr (''https://solscan.io/tx/'' @ signature))]"

text \<open>The loop body for the record at index \<open>i\<close>, once its status is \<open>0\<close>.\<close>

definition settle ::
  "env \<Rightarrow> int \<Rightarrow> nat \<Rightarrow> row \<Rightarrow> number \<Rightarrow> store \<Rightarrow> limiter \<Rightarrow> outcome" where
  "settle e now i trade treasuryBalance s l =
     (let ata = row_field trade ''ATA'' in
      case parseFloat e (row_field trade ''sol_buy_amount'') of
        Inl x \<Rightarrow> rejected x s l
      | Inr solBuyAmount \<Rightarrow>
          if num_ge treasuryBalance (requiredBalance solBuyAmount) then
            (case rateLimitedGetOwnerWallet e now ata l of
               (Inl x, l') \<Rightarrow> rejected x s l'
             | (Inr ownerWallet, l') \<Rightarrow>
                 if strict_eq ownerWallet ata then quiet s l'
                 else if \<not> PublicKey_ok e ownerWallet then quiet s l'
                 else
                   (let lamports = Math_floor (num_mul solBuyAmount (Finite (10 ^ 9))) in
                    case sendAndConfirmTransaction e ownerWallet lamports of
                      Inl error \<Rightarrow>
                        \<lparr>thrown = None, transfers = [(ownerWallet, lamports)], updated = [],
                         store_after = s, limiter_after = l'\<rparr>
                    | Inr signature \<Rightarrow>
                        \<lparr>thrown = None, transfers = [(ownerWallet, lamports)],
                         updated = [(i, refund_updates signature)],
                         store_after = snd (updateExcelRow e i (refund_updates signature) s),
                         limiter_after = l'\<rparr>))
          else quiet s l)"

function refund_loop ::
  "env \<Rightarrow> int \<Rightarrow> row list \<Rightarrow> number \<Rightarrow> nat \<Rightarrow> store \<Rightarrow> limiter \<Rightarrow> outcome" where
  "refund_loop e now trades treasuryBalance i s l =
     (if i < length trades then
        (if \<not> strict_eq (row_field (trades ! i) ''status'') (JNum (Finite 0))
         then refund_loop e now trades treasuryBalance (i + 1) s l
         else settle e now i (trades ! i) treasuryBalance s l)
      else quiet s l)"
  by pat_completeness auto
termination
  by (relation "measure (\<lambda>(e, now, trades, treasuryBalance, i, s, l). length trades - i)") auto

text \<open>
  \<open>treasuryBalanceLamports / 1e9\<close>, where the lamports are the number that
  \<open>getBalance\<close> returned (itself a double).
\<close>

definition treasuryBalance :: "nat \<Rightarrow> number" where
  "treasuryBalance treasuryBalanceLamports =
     num_div (round_double (of_nat treasuryBalanceLamports)) (Finite (10 ^ 9))"

definition processRefunds :: "env \<Rightarrow> int \<Rightarrow> store \<Rightarrow> limiter \<Rightarrow> outcome" where
  "processRefunds e now s l =
     (if \<not> ENABLE_REFUNDS e then quiet s l
      else
        (let trades = sheet_to_json (workbook s) in
         case getBalance e of
           Inl x \<Rightarrow> rejected x s l
         | Inr treasuryBalanceLamports \<Rightarrow>
             refund_loop e now trades (treasuryBalance treasuryBalanceLamports) 0 s l))"

section \<open>The stream consumer\<close>

definition TARGET_MINT_ADDRESS :: string where
  "TARGET_MINT_ADDRESS = ''FU9etYuLtzANF59y5oNoByLge3raMEUn7EC56LkuBAGS''"

definition SOL_MINT_ADDRESSES :: "string list" where
  "SOL_MINT_ADDRESSES =
     [''So11111111111111111111111111111111111111111'',
      ''So11111111111111111111111111111111111111112'']"

definition then_do :: "exn + 'a \<Rightarrow> ('a \<Rightarrow> exn + 'b) \<Rightarrow> exn + 'b" where
  "then_do r f = (case r of Inl x \<Rightarrow> Inl x | Inr v \<Rightarrow> f v)"

text \<open>
  The first lines of the \<open>forEach\<close> callback, up to and with the log line that prints
  the fields: the result is (buyerAddress, sellCurrency, solAmount, buyMint).
\<close>

definition trade_fields :: "jsval \<Rightarrow> exn + (jsval \<times> jsval \<times> jsval \<times> jsval)" where
  "trade_fields trade =
     then_do (get_prop trade ''Trade'') (\<lambda>t1.
     then_do (get_prop t1 ''Buy'') (\<lambda>buy.
     then_do (get_prop t1 ''Sell'') (\<lambda>sell.
     then_do (get_prop buy ''Account'') (\<lambda>account.
     then_do (get_prop account ''Address'') (\<lambda>buyerAddress.
     then_do (get_prop sell ''Currency'') (\<lambda>currency.
     then_do (get_prop currency ''MintAddress'') (\<lambda>sellCurrency.
     then_do (if sellCurrency \<in> JStr ` set SOL_MINT_ADDRESSES
              then get_prop sell ''Amount'' else Inr (JNum (Finite 0))) (\<lambda>solAmount.
     then_do (get_prop buy ''Currency'') (\<lambda>currency2.
     then_do (get_prop currency2 ''MintAddress'') (\<lambda>buyMint.
     then_do (get_prop trade ''Block'') (\<lambda>block.
     then_do (get_prop block ''Time'') (\<lambda>time.
       if list_ex toString_throws [buyerAddress, buyMint, sellCurrency, solAmount, time]
       then Inl TypeError
       else Inr (buyerAddress, sellCurrency, solAmount, buyMint)))))))))))))"

text \<open>
  \<open>uniqueWallets.has(v)\<close>: an object or array parsed from a message is a new reference
  and is never found.
\<close>

definition uniqueWallets_has :: "store \<Rightarrow> jsval \<Rightarrow> bool" where
  "uniqueWallets_has s v = (primitive v \<and> v \<in> uniqueWallets s)"

datatype action = Logged | AppendFailed | AlreadyLogged | NoSolPaid | NoLog | MintMismatch

text \<open>The rest of the callback: the filter on the mint, the dedup and the append.\<close>

definition log_trade :: "env \<Rightarrow> jsval \<Rightarrow> jsval \<Rightarrow> jsval \<Rightarrow> store \<Rightarrow> action \<times> store" where
  "log_trade e buyerAddress solAmount buyMint s =
     (if \<not> truthy (JStr TARGET_MINT_ADDRESS) \<or> strict_eq buyMint (JStr TARGET_MINT_ADDRESS) then
        (if \<not> uniqueWallets_has s buyerAddress \<and> num_gt (to_number e solAmount) (Finite 0) then
           (let s1 = s\<lparr>uniqueWallets := insert buyerAddress (uniqueWallets s)\<rparr> in
            case appendTradeToExcel e buyerAddress solAmount s1 of
              (True, s2) \<Rightarrow> (Logged, s2)
            | (False, s2) \<Rightarrow> (AppendFailed, s2))
         else if uniqueWallets_has s buyerAddress then (AlreadyLogged, s)
         else if strict_eq solAmount (JNum (Finite 0)) then (NoSolPaid, s)
         else (NoLog, s))
      else (MintMismatch, s))"

definition onTrade :: "env \<Rightarrow> jsval \<Rightarrow> store \<Rightarrow> (exn + action) \<times> store" where
  "onTrade e trade s =
     (case trade_fields trade of
        Inl x \<Rightarrow> (Inl x, s)
      | Inr (buyerAddress, sellCurrency, solAmount, buyMint) \<Rightarrow>
          (case log_trade e buyerAddress solAmount buyMint s of (a, s') \<Rightarrow> (Inr a, s')))"

section \<open>The worksheet, cell by cell\<close>

text \<open>
  What the two conversions of the library do with values of any kind. A worksheet is
  given by its rows below the header row; a row lists its cells from left to right, each
  with the header of its column. A cell is an object with a type \<open>t\<close> and a value
  \<open>v\<close>. The header cells are read back as the keys they were written from, and a
  record read from the sheet has one property for each cell that can be read, in the
  order of the columns.
\<close>

type_synonym worksheet = "(string \<times> jsval) list list"

text \<open>The \<open>header\<close> option that the program passes to \<open>json_to_sheet\<close>.\<close>

definition LEDGER_HEADER :: "string list" where
  "LEDGER_HEADER = [''ATA'', ''sol_buy_amount'', ''status'', ''solscan_link'']"

text \<open>
  The cell that \<open>json_to_sheet\<close> makes of a property value: an object or an array is
  taken as the cell itself; a number, a boolean and a string get the types \<open>n\<close>,
  \<open>b\<close> and \<open>s\<close>; \<open>null\<close> and \<open>undefined\<close> give a stub of type \<open>z\<close>.
\<close>

definition make_cell :: "jsval \<Rightarrow> jsval" where
  "make_cell v =
     (case v of
        JObj kvs \<Rightarrow> v
      | JArr xs \<Rightarrow> v
      | JNum n \<Rightarrow> JObj [(''t'', JStr ''n''), (''v'', v)]
      | JBool b \<Rightarrow> JObj [(''t'', JStr ''b''), (''v'', v)]
      | JStr s \<Rightarrow> JObj [(''t'', JStr ''s''), (''v'', v)]
      | _ \<Rightarrow> JObj [(''t'', JStr ''z''), (''v'', v)])"

text \<open>The keys of a list in the order in which they are first seen.\<close>

definition first_seen :: "string list \<Rightarrow> string list" where
  "first_seen ks = rev (remdups (rev ks))"

text \<open>
  \<open>XLSX.utils.json_to_sheet(js, {header})\<close>, for an array \<open>js\<close> that may have holes
  (\<open>None\<close>): the columns are those of \<open>header\<close>, followed by the other keys of the
  records in the order in which they are first seen; a record fills the cells of its
  keys, and a hole leaves a row without cells.
\<close>

definition columns :: "row option list \<Rightarrow> string list \<Rightarrow> string list" where
  "columns js header =
     first_seen (header @ concat (map (\<lambda>JS. case JS of None \<Rightarrow> [] | Some r \<Rightarrow> map fst r) js))"

definition make_row :: "string list \<Rightarrow> row \<Rightarrow> (string \<times> jsval) list" where
  "make_row hdr r = List.map_filter (\<lambda>k. map_option (\<lambda>v. (k, make_cell v)) (map_of r k)) hdr"

definition XLSX_json_to_sheet :: "row option list \<Rightarrow> string list \<Rightarrow> worksheet" where
  "XLSX_json_to_sheet js header =
     (let hdr = columns js header
      in map (\<lambda>JS. case JS of None \<Rightarrow> [] | Some r \<Rightarrow> make_row hdr r) js)"

text \<open>\<open>v == 0\<close>, which converts an object to a primitive value first.\<close>

definition loose_eq_zero :: "env \<Rightarrow> jsval \<Rightarrow> exn + bool" where
  "loose_eq_zero e v =
     (if toString_throws v then Inl TypeError
      else Inr (case v of
                  JUndefined \<Rightarrow> False
                | JNull \<Rightarrow> False
                | _ \<Rightarrow> to_number e v = Finite 0))"

definition to_string :: "env \<Rightarrow> jsval \<Rightarrow> string" where
  "to_string e v = (case v of JStr s \<Rightarrow> s | _ \<Rightarrow> ToString e v)"

text \<open>
  What \<open>sheet_to_json\<close> reads from one cell: \<open>None\<close> when the cell gives no property,
  otherwise the value of the property. A cell without a type is skipped; a stub gives
  \<open>null\<close> when its value is \<open>null\<close>; an error cell gives \<open>null\<close> when its code is
  \<open>0\<close>; a cell of type \<open>s\<close>, \<open>d\<close>, \<open>b\<close> or \<open>n\<close> gives its value unless that
  is \<open>undefined\<close>; any other type makes the library throw
  \<open>Error('unrecognized type ' + t)\<close>.
\<close>

definition read_cell :: "env \<Rightarrow> jsval \<Rightarrow> exn + jsval option" where
  "read_cell e val =
     (let t = field val ''t''; v = field val ''v'' in
      if t = JUndefined then Inr None
      else if t = JStr ''z'' then Inr (if v = JNull then Some JNull else None)
      else if t = JStr ''e'' then
        then_do (loose_eq_zero e v) (\<lambda>zero. Inr (if zero then Some JNull else None))
      else if t = JStr ''s'' \<or> t = JStr ''d'' \<or> t = JStr ''b'' \<or> t = JStr ''n'' then
        Inr (if v = JUndefined then None else Some v)
      else Inl (if toString_throws t then TypeError
                else Error (''unrecognized type '' @ to_string e t)))"

fun read_row :: "env \<Rightarrow> (string \<times> jsval) list \<Rightarrow> exn + row" where
  "read_row e [] = Inr []"
| "read_row e ((k, val) # cells) =
     then_do (read_cell e val) (\<lambda>v.
     then_do (read_row e cells) (\<lambda>r.
       Inr (case v of None \<Rightarrow> r | Some x \<Rightarrow> (k, x) # r)))"

text \<open>A record is blank when none of its values is other than \<open>null\<close>.\<close>

definition blank :: "row \<Rightarrow> bool" where
  "blank r = list_all (\<lambda>(k, v). nullish v) r"

text \<open>
  \<open>XLSX.utils.sheet_to_json(ws)\<close>: the records of the rows from top to bottom; a row
  whose record is blank gives no record.
\<close>

fun XLSX_sheet_to_json :: "env \<Rightarrow> worksheet \<Rightarrow> exn + row list" where
  "XLSX_sheet_to_json e [] = Inr []"
| "XLSX_sheet_to_json e (cells # ws) =
     then_do (read_row e cells) (\<lambda>r.
     then_do (XLSX_sheet_to_json e ws) (\<lambda>out.
       Inr (if blank r then out else r # out)))"

text \<open>
  The state of the process with the sheet \<open>Trades\<close> held cell by cell: the sheet of
  the workbook in memory, the set \<open>uniqueWallets\<close>, and the number of writes of the file
  attempted so far.
\<close>

record book =
  Sheets_Trades :: worksheet
  uniqueWallets_cells :: "jsval set"
  writes_cells :: nat

text \<open>The retry loop of the two ledger operations, as \<open>write_retries\<close> above.\<close>

function write_retries_cells :: "env \<Rightarrow> nat \<Rightarrow> book \<Rightarrow> bool \<times> book" where
  "write_retries_cells e retries b =
     (if retries < MAX_WRITE_RETRIES then
        (if writeFileSync_ok e (writes_cells b) then (True, b\<lparr>writes_cells := writes_cells b + 1\<rparr>)
         else if retries = MAX_WRITE_RETRIES - 1 then (False, b\<lparr>writes_cells := writes_cells b + 1\<rparr>)
         else write_retries_cells e (retries + 1) (b\<lparr>writes_cells := writes_cells b + 1\<rparr>))
      else (False, b))"
  by pat_completeness auto
termination
  by (relation "measure (\<lambda>(e, retries, b). MAX_WRITE_RETRIES - retries)") auto

text \<open>
  \<open>appendTradeToExcel\<close> and \<open>updateExcelRow\<close> on the cells. The two conversions are
  called outside the \<open>try\<close> of the retry loop, so an exception of \<open>sheet_to_json\<close>
  leaves the function (\<open>Inl\<close>) before the sheet is replaced.
\<close>

definition appendTradeToExcel_cells ::
  "env \<Rightarrow> jsval \<Rightarrow> jsval \<Rightarrow> book \<Rightarrow> (exn + bool) \<times> book" where
  "appendTradeToExcel_cells e ata solAmount b =
     (case XLSX_sheet_to_json e (Sheets_Trades b) of
        Inl x \<Rightarrow> (Inl x, b)
      | Inr trades \<Rightarrow>
          (let trades = map Some trades @ [Some (new_trade ata solAmount)];
               newWs = XLSX_json_to_sheet trades LEDGER_HEADER
           in case write_retries_cells e 0 (b\<lparr>Sheets_Trades := newWs\<rparr>) of
                (ok, b') \<Rightarrow> (Inr ok, b')))"

text \<open>\<open>trades[index] = r\<close> on an array of records, which has holes afterwards when
  \<open>index\<close> is past its end.\<close>

definition array_set_holes :: "row list \<Rightarrow> nat \<Rightarrow> row \<Rightarrow> row option list" where
  "array_set_holes trades index r =
     (if index < length trades then map Some (trades[index := r])
      else map Some trades @ replicate (index - length trades) None @ [Some r])"

definition updateExcelRow_cells ::
  "env \<Rightarrow> nat \<Rightarrow> row \<Rightarrow> book \<Rightarrow> (exn + bool) \<times> book" where
  "updateExcelRow_cells e index updates b =
     (case XLSX_sheet_to_json e (Sheets_Trades b) of
        Inl x \<Rightarrow> (Inl x, b)
      | Inr trades \<Rightarrow>
          (let trades = array_set_holes trades index (spread (array_get trades index) updates);
               newWs = XLSX_json_to_sheet trades LEDGER_HEADER
           in case write_retries_cells e 0 (b\<lparr>Sheets_Trades := newWs\<rparr>) of
                (ok, b') \<Rightarrow> (Inr ok, b')))"

text \<open>
  The callback of \<open>trades.forEach\<close> and the \<open>message\<close> handler over the cells. An
  exception in the callback, of the field reads or of the append, ends the iteration and
  leaves the handler, which catches nothing.
\<close>

definition has_cells :: "book \<Rightarrow> jsval \<Rightarrow> bool" where
  "has_cells b v = (primitive v \<and> v \<in> uniqueWallets_cells b)"

definition log_trade_cells ::
  "env \<Rightarrow> jsval \<Rightarrow> jsval \<Rightarrow> jsval \<Rightarrow> book \<Rightarrow> (exn + action) \<times> book" where
  "log_trade_cells e buyerAddress solAmount buyMint b =
     (if \<not> truthy (JStr TARGET_MINT_ADDRESS) \<or> strict_eq buyMint (JStr TARGET_MINT_ADDRESS) then
        (if \<not> has_cells b buyerAddress \<and> num_gt (to_number e solAmount) (Finite 0) then
           (let b1 = b\<lparr>uniqueWallets_cells := insert buyerAddress (uniqueWallets_cells b)\<rparr> in
            case appendTradeToExcel_cells e buyerAddress solAmount b1 of
              (Inl x, b2) \<Rightarrow> (Inl x, b2)
            | (Inr True, b2) \<Rightarrow> (Inr Logged, b2)
            | (Inr False, b2) \<Rightarrow> (Inr AppendFailed, b2))
         else if has_cells b buyerAddress then (Inr AlreadyLogged, b)
         else if strict_eq solAmount (JNum (Finite 0)) then (Inr NoSolPaid, b)
         else (Inr NoLog, b))
      else (Inr MintMismatch, b))"

definition onTrade_cells :: "env \<Rightarrow> jsval \<Rightarrow> book \<Rightarrow> (exn + action) \<times> book" where
  "onTrade_cells e trade b =
     (case trade_fields trade of
        Inl x \<Rightarrow> (Inl x, b)
      | Inr (buyerAddress, sellCurrency, solAmount, buyMint) \<Rightarrow>
          log_trade_cells e buyerAddress solAmount buyMint b)"

fun forEach_trade_cells :: "env \<Rightarrow> jsval list \<Rightarrow> book \<Rightarrow> exn option \<times> book" where
  "forEach_trade_cells e [] b = (None, b)"
| "forEach_trade_cells e (trade # trades) b =
     (case onTrade_cells e trade b of
        (Inl x, b') \<Rightarrow> (Some x, b')
      | (Inr a, b') \<Rightarrow> forEach_trade_cells e trades b')"

text \<open>
  The \<open>message\<close> handler. Its argument is what \<open>JSON.parse(data.toString())\<close> gives:
  the parsed value, or the SyntaxError it throws. The result is the exception that leaves
  the handler, if any, and the state. The subscription messages sent on
  \<open>connection_ack\<close> and the log lines are not part of the state.
\<close>

definition onMessage_cells :: "env \<Rightarrow> exn + jsval \<Rightarrow> book \<Rightarrow> exn option \<times> book" where
  "onMessage_cells e parsed b =
     (case parsed of
        Inl x \<Rightarrow> (Some x, b)
      | Inr response \<Rightarrow>
          (case get_prop response ''type'' of
             Inl x \<Rightarrow> (Some x, b)
           | Inr ty \<Rightarrow>
               if strict_eq ty (JStr ''connection_ack'') then (None, b)
               else if strict_eq ty (JStr ''data'') then
                 (case then_do (get_prop response ''payload'') (\<lambda>payload. get_prop payload ''data'') of
                    Inl x \<Rightarrow> (Some x, b)
                  | Inr d \<Rightarrow>
                      (let found = opt_prop (opt_prop d ''Solana'') ''DEXTrades'';
                           trades = (if truthy found then found else JArr [])
                       in case trades of
                            JArr ts \<Rightarrow> forEach_trade_cells e ts b
                          | _ \<Rightarrow> (Some TypeError, b)))
               else if strict_eq ty (JStr ''ka'') then (None, b)
               else if strict_eq ty (JStr ''error'') then
                 (case then_do (get_prop response ''payload'') (\<lambda>payload. get_prop payload ''errors'') of
                    Inl x \<Rightarrow> (Some x, b)
                  | Inr errors \<Rightarrow> (None, b))
               else (None, b)))"

section \<open>Start of the process\<close>

text \<open>
  The module's top level, as far as the ledger is concerned: \<open>uniqueWallets\<close> is a new
  empty set; the workbook is read from the file when it exists (\<open>Some\<close> of its sheet
  \<open>Trades\<close>), and otherwise created without records and written once (a failure of
  that write is logged only).
\<close>

definition startup_cells :: "worksheet option \<Rightarrow> book" where
  "startup_cells file =
     (case file of
        Some ws \<Rightarrow> \<lparr>Sheets_Trades = ws, uniqueWallets_cells = {}, writes_cells = 0\<rparr>
      | None \<Rightarrow> \<lparr>Sheets_Trades = XLSX_json_to_sheet [] LEDGER_HEADER, uniqueWallets_cells = {}, writes_cells = 1\<rparr>)"

section \<open>Notions used in the statements\<close>

text \<open>A record is pending when its status is the number \<open>0\<close>, as the refund loop tests it.\<close>

definition pending :: "row \<Rightarrow> bool" where
  "pending r = strict_eq (row_field r ''status'') (JNum (Finite 0))"

text \<open>\<open>first_pending trades j\<close>: the first pending record in ledger order is at index \<open>j\<close>.\<close>

definition first_pending :: "row list \<Rightarrow> nat \<Rightarrow> bool" where
  "first_pending trades j =
     (j < length trades \<and> pending (trades ! j) \<and> list_all (\<lambda>r. \<not> pending r) (take j trades))"

text \<open>The indices at which a sheet differs from an earlier one.\<close>

definition changed_rows :: "row list \<Rightarrow> row list \<Rightarrow> nat list" where
  "changed_rows old new = filter (\<lambda>j. new ! j \<noteq> old ! j) [0..<length old]"

text \<open>
  A trade event is well formed when the objects the callback reads through are there
  (\<open>trade\<close>, \<open>Trade\<close>, \<open>Buy\<close>, \<open>Sell\<close>, \<open>Buy.Account\<close>, \<open>Buy.Currency\<close>,
  \<open>Sell.Currency\<close>, \<open>Block\<close>) and the values it prints can be converted to strings.
\<close>

definition wf_trade :: "jsval \<Rightarrow> bool" where
  "wf_trade trade =
     (let t1 = field trade ''Trade'';
          buy = field t1 ''Buy'';
          sell = field t1 ''Sell'';
          buyerAddress = field (field buy ''Account'') ''Address'';
          sellCurrency = field (field sell ''Currency'') ''MintAddress'';
          solAmount = (if sellCurrency \<in> JStr ` set SOL_MINT_ADDRESSES
                       then field sell ''Amount'' else JNum (Finite 0));
          buyMint = field (field buy ''Currency'') ''MintAddress'';
          time = field (field trade ''Block'') ''Time''
      in \<not> nullish trade \<and> \<not> nullish t1 \<and> \<not> nullish buy \<and> \<not> nullish sell \<and>
         \<not> nullish (field buy ''Account'') \<and> \<not> nullish (field buy ''Currency'') \<and>
         \<not> nullish (field sell ''Currency'') \<and> \<not> nullish (field trade ''Block'') \<and>
         \<not> list_ex toString_throws [buyerAddress, buyMint, sellCurrency, solAmount, time])"

text \<open>
  A message is well formed when it is not \<open>null\<close>; a \<open>data\<close> message also needs a
  payload and, where it carries a list of trades, an array of well-formed trades; an
  \<open>error\<close> message needs a payload.
\<close>

definition wf_message :: "jsval \<Rightarrow> bool" where
  "wf_message response =
     (\<not> nullish response \<and>
      (if field response ''type'' = JStr ''data'' then
         \<not> nullish (field response ''payload'') \<and>
         (let found = opt_prop (opt_prop (field (field response ''payload'') ''data'') ''Solana'') ''DEXTrades''
          in if truthy found
             then (case found of JArr ts \<Rightarrow> list_all wf_trade ts | _ \<Rightarrow> False)
             else True)
       else if field response ''type'' = JStr ''error'' then \<not> nullish (field response ''payload'')
       else True))"

text \<open>The addresses that have a record in a sheet.\<close>

definition ledger_addresses :: "row list \<Rightarrow> jsval set" where
  "ledger_addresses rows = (\<lambda>r. row_field r ''ATA'') ` set rows"

text \<open>
  A clean cell is one that a workbook file gives or that \<open>json_to_sheet\<close> makes of a
  primitive value: a stub, a string, a boolean or a number with a primitive value, or an
  error cell with its numeric code. A clean sheet has clean cells only, one at most for
  each column of a row.
\<close>

definition clean_cell :: "jsval \<Rightarrow> bool" where
  "clean_cell c =
     (let t = field c ''t''; v = field c ''v'' in
      if t = JStr ''e'' then (case v of JNum n \<Rightarrow> True | _ \<Rightarrow> False)
      else (t = JStr ''z'' \<or> t = JStr ''s'' \<or> t = JStr ''b'' \<or> t = JStr ''n'') \<and> primitive v)"

definition clean_sheet :: "worksheet \<Rightarrow> bool" where
  "clean_sheet ws =
     list_all (\<lambda>cells. distinct (map fst cells) \<and> list_all (\<lambda>(k, c). clean_cell c) cells) ws"

text \<open>The value that is read from a clean cell, and the records of a clean sheet.\<close>

definition cell_value :: "jsval \<Rightarrow> jsval option" where
  "cell_value c =
     (let t = field c ''t''; v = field c ''v'' in
      if t = JStr ''z'' then (if v = JNull then Some JNull else None)
      else if t = JStr ''e'' then (if v = JNum (Finite 0) then Some JNull else None)
      else if v = JUndefined then None else Some v)"

definition records :: "worksheet \<Rightarrow> row list" where
  "records ws =
     filter (\<lambda>r. \<not> blank r)
       (map (List.map_filter (\<lambda>(k, c). map_option (Pair k) (cell_value c))) ws)"

text \<open>
  A record of primitive values, and what is read back of it from a sheet with the
  columns \<open>hdr\<close>: its properties other than \<open>undefined\<close>, in the order of the columns.
\<close>

definition prim_row :: "row \<Rightarrow> bool" where
  "prim_row r = (distinct (map fst r) \<and> list_all (\<lambda>(k, v). primitive v) r)"

definition stored :: "string list \<Rightarrow> row \<Rightarrow> row" where
  "stored hdr r =
     List.map_filter
       (\<lambda>k. case map_of r k of
               None \<Rightarrow> None
             | Some v \<Rightarrow> if v = JUndefined then None else Some (k, v)) hdr"

text \<open>
  A trade event is typed when the buyer address and the SOL amount that the callback
  takes from it are primitive values (strings and numbers in the feed); a message is
  typed when the trades of its list are.
\<close>

definition typed_trade :: "jsval \<Rightarrow> bool" where
  "typed_trade trade =
     (case trade_fields trade of
        Inl x \<Rightarrow> True
      | Inr (buyerAddress, sellCurrency, solAmount, buyMint) \<Rightarrow>
          primitive buyerAddress \<and> primitive solAmount)"

definition typed_message :: "jsval \<Rightarrow> bool" where
  "typed_message response =
     (if field response ''type'' = JStr ''data'' then
        (case opt_prop (opt_prop (field (field response ''payload'') ''data'') ''Solana'') ''DEXTrades'' of
           JArr ts \<Rightarrow> list_all typed_trade ts
         | _ \<Rightarrow> True)
      else True)"

text \<open>
  The states the process can be in since its start, given the records \<open>rows0\<close> that
  the file held then: the state it starts with, on a file with a clean sheet or without a
  file, and those that a typed message or an update by a refund cycle leads to. A message
  that does not parse changes nothing. A refund cycle changes the state only by its one
  call of \<open>updateExcelRow\<close>, at the index of a record that it read from the sheet
  earlier.
\<close>

inductive reachable_cells :: "row list \<Rightarrow> book \<Rightarrow> bool" where
  start_file: "clean_sheet ws \<Longrightarrow> XLSX_sheet_to_json e ws = Inr rows0 \<Longrightarrow>
     reachable_cells rows0 (startup_cells (Some ws))"
| start_new: "reachable_cells [] (startup_cells None)"
| message: "reachable_cells rows0 b \<Longrightarrow> typed_message response \<Longrightarrow>
     reachable_cells rows0 (snd (onMessage_cells e (Inr response) b))"
| refund: "reachable_cells rows0 b \<Longrightarrow> XLSX_sheet_to_json e (Sheets_Trades b) = Inr trades \<Longrightarrow>
     i < length trades \<Longrightarrow>
     reachable_cells rows0 (snd (updateExcelRow_cells e i (refund_updates signature) b))"

text \<open>
  Examples of feed data: a trade that buys the target mint and pays 1.5 of the wrapped-SOL
  mint, the \<open>data\<close> message that carries a list of trades, and a store with an empty
  ledger.
\<close>

definition sample_trade :: "string \<Rightarrow> jsval" where
  "sample_trade buyer =
     JObj [(''Trade'', JObj
              [(''Buy'', JObj [(''Currency'', JObj [(''MintAddress'', JStr TARGET_MINT_ADDRESS)]),
                               (''Amount'', JStr ''1000''),
                               (''Account'', JObj [(''Address'', JStr buyer)])]),
               (''Sell'', JObj [(''Account'', JObj [(''Address'', JStr ''pool'')]),
                                (''Amount'', JStr ''1.5''),
                                (''Currency'', JObj [(''MintAddress'',
                                   JStr ''So11111111111111111111111111111111111111112'')])])]),
           (''Block'', JObj [(''Time'', JStr ''2025-01-01T00:00:00Z'')])]"

definition data_message :: "jsval list \<Rightarrow> jsval" where
  "data_message ts =
     JObj [(''type'', JStr ''data''), (''id'', JStr ''1''),
           (''payload'', JObj [(''data'', JObj [(''Solana'', JObj [(''DEXTrades'', JArr ts)])])])]"

definition empty_store :: store where
  "empty_store = \<lparr>workbook = [], disk = Some [], uniqueWallets = {}, writes = 0\<rparr>"

text \<open>
  An environment for the examples: every write of the file succeeds or every write fails
  (\<open>w\<close>); refunds are enabled; of all strings only \<open>1.5\<close> reads as a number;
  every address is a token account whose owner prints as
  \<open>owner\<close>; the treasury holds 3 SOL; every transfer is confirmed. The sample ledger
  has two pending records, of 1 SOL and of 0.25 SOL.
\<close>

definition token_account :: accountInfo where
  "token_account = \<lparr>info_owner = ''TokenkegQfeZyiNwAJbNbGKPFXCWuBvf9Ss623VQ5DA'', info_data = []\<rparr>"

definition sample_env :: "bool \<Rightarrow> env" where
  "sample_env w =
     \<lparr>ENABLE_REFUNDS = True,
      writeFileSync_ok = (\<lambda>n. w),
      ToString = (\<lambda>v. ''[object Object]''),
      StringToNumber = (\<lambda>s. if s = ''1.5'' then Finite (3 / 2) else NaN),
      StringToFloatPrefix = (\<lambda>s. if s = ''1.5'' then Finite (3 / 2) else NaN),
      PublicKey_ok = (\<lambda>v. True),
      PublicKey_toString = (\<lambda>bytes. ''owner''),
      getAccountInfo = (\<lambda>v. Inr (Some token_account)),
      getBalance = Inr 3000000000,
      sendAndConfirmTransaction = (\<lambda>payee lamports. Inr ''sig''),
      timer_late = (\<lambda>t. 0)\<rparr>"

text \<open>
  Variants: a treasury of 10 SOL; a chain on which no account exists; an RPC endpoint
  whose fetch fails.
\<close>

definition rich_env :: env where
  "rich_env = (sample_env True)\<lparr>getBalance := Inr 10000000000\<rparr>"

definition no_account_env :: env where
  "no_account_env = (sample_env True)\<lparr>getAccountInfo := (\<lambda>v. Inr None)\<rparr>"

definition failing_rpc_env :: env where
  "failing_rpc_env = (sample_env True)\<lparr>getAccountInfo := (\<lambda>v. Inl (Error ''fetch failed''))\<rparr>"

definition sample_store :: store where
  "sample_store =
     \<lparr>workbook = [new_trade (JStr ''W1'') (JNum (Finite 1)), new_trade (JStr ''W2'') (JNum (Finite (1 / 4)))],
      disk = None, uniqueWallets = {}, writes = 0\<rparr>"

section \<open>Properties of the rate limiter\<close>






section \<open>Properties of the ledger operations\<close>

declare write_retries.simps [simp del]

lemma write_retries_workbook: "workbook (snd (write_retries e r s)) = workbook s"
proof (induction e r s rule: write_retries.induct)
  case (1 e retries s)
  show ?case
    using 1 by (subst write_retries.simps) (auto simp: writeFileSync_def split: if_splits)
qed

lemma write_retries_uniqueWallets: "uniqueWallets (snd (write_retries e r s)) = uniqueWallets s"
proof (induction e r s rule: write_retries.induct)
  case (1 e retries s)
  show ?case
    using 1 by (subst write_retries.simps) (auto simp: writeFileSync_def split: if_splits)
qed

lemma write_retries_disk:
  "disk (snd (write_retries e r s)) = (if fst (write_retries e r s) then Some (workbook s) else disk s)"
proof (induction e r s rule: write_retries.induct)
  case (1 e retries s)
  show ?case
    using 1 by (subst (1 2) write_retries.simps) (auto simp: writeFileSync_def split: if_splits)
qed

lemma write_retries_from:
  "fst (write_retries e r s) = (\<exists>k<MAX_WRITE_RETRIES - r. writeFileSync_ok e (writes s + k))"
proof (induction e r s rule: write_retries.induct)
  case (1 e retries s)
  show ?case
  proof (cases "retries < MAX_WRITE_RETRIES")
    case False
    then show ?thesis by (subst write_retries.simps) simp
  next
    case inside: True
    show ?thesis
    proof (cases "writeFileSync_ok e (writes s)")
      case True
      have "fst (write_retries e retries s)"
        using inside True by (subst write_retries.simps) (simp add: writeFileSync_def)
      moreover have "\<exists>k<MAX_WRITE_RETRIES - retries. writeFileSync_ok e (writes s + k)"
        using inside True by (intro exI [of _ 0]) simp
      ultimately show ?thesis by simp
    next
      case fails: False
      show ?thesis
      proof (cases "retries = MAX_WRITE_RETRIES - 1")
        case True
        have "\<not> fst (write_retries e retries s)"
          using inside fails True by (subst write_retries.simps) (simp add: writeFileSync_def)
        moreover have "\<not> (\<exists>k<MAX_WRITE_RETRIES - retries. writeFileSync_ok e (writes s + k))"
          using fails True by (simp add: MAX_WRITE_RETRIES_def)
        ultimately show ?thesis by simp
      next
        case False
        define s' where "s' = s\<lparr>writes := writes s + 1\<rparr>"
        have w: "writeFileSync e s = (False, s')"
          using fails by (simp add: writeFileSync_def s'_def)
        have step: "write_retries e retries s = write_retries e (retries + 1) s'"
          using inside False w by (subst write_retries.simps) simp
        have ih: "fst (write_retries e (retries + 1) s') =
            (\<exists>k<MAX_WRITE_RETRIES - (retries + 1). writeFileSync_ok e (writes s' + k))"
          using "1.IH" [OF inside w [symmetric] _ False] by simp
        have shift: "(\<exists>k<MAX_WRITE_RETRIES - (retries + 1). writeFileSync_ok e (writes s' + k)) =
            (\<exists>k<MAX_WRITE_RETRIES - retries. writeFileSync_ok e (writes s + k))"
        proof
          assume "\<exists>k<MAX_WRITE_RETRIES - (retries + 1). writeFileSync_ok e (writes s' + k)"
          then obtain k where "k < MAX_WRITE_RETRIES - (retries + 1)" "writeFileSync_ok e (writes s' + k)"
            by blast
          then show "\<exists>k<MAX_WRITE_RETRIES - retries. writeFileSync_ok e (writes s + k)"
            by (intro exI [of _ "Suc k"]) (simp add: s'_def)
        next
          assume "\<exists>k<MAX_WRITE_RETRIES - retries. writeFileSync_ok e (writes s + k)"
          then obtain k where k: "k < MAX_WRITE_RETRIES - retries" "writeFileSync_ok e (writes s + k)"
            by blast
          with fails have "k \<noteq> 0" by (cases k) auto
          then obtain k' where "k = Suc k'" by (cases k) auto
          with k show "\<exists>k<MAX_WRITE_RETRIES - (retries + 1). writeFileSync_ok e (writes s' + k)"
            by (intro exI [of _ k']) (simp add: s'_def)
        qed
        show ?thesis using step ih shift by simp
      qed
    qed
  qed
qed

lemma map_of_spread:
  "map_of (spread a b) k = (case map_of (rev b) k of Some v \<Rightarrow> Some v | None \<Rightarrow> map_of a k)"
  unfolding spread_def
proof (induction b arbitrary: a)
  case Nil show ?case by simp
next
  case (Cons x b)
  obtain k' v' where x: "x = (k', v')" by (cases x)
  show ?case by (simp add: Cons x update_conv' map_add_def split: option.splits)
qed

lemma update_fresh: "k \<notin> fst ` set al \<Longrightarrow> AList.update k v al = al @ [(k, v)]"
  by (induction al) auto

lemma fold_update_fresh:
  "distinct (map fst (a @ b)) \<Longrightarrow> fold (\<lambda>(k, v). AList.update k v) b a = a @ b"
proof (induction b arbitrary: a)
  case Nil show ?case by simp
next
  case (Cons x b)
  obtain k v where x: "x = (k, v)" by (cases x)
  have fresh: "k \<notin> fst ` set a" using Cons.prems x by auto
  have "distinct (map fst ((a @ [(k, v)]) @ b))" using Cons.prems x by auto
  from Cons.IH [OF this] show ?case by (simp add: x update_fresh [OF fresh])
qed

lemma spread_Nil: "distinct (map fst b) \<Longrightarrow> spread [] b = b"
  using fold_update_fresh [of "[]" b] by (simp add: spread_def)

lemma spread_frame: "k \<notin> fst ` set b \<Longrightarrow> map_of (spread a b) k = map_of a k"
  by (simp add: map_of_spread map_of_eq_None_iff [THEN iffD2])

lemma appendTradeToExcel_workbook:
  "workbook (snd (appendTradeToExcel e ata solAmount s)) = workbook s @ [new_trade ata solAmount]"
  by (simp add: appendTradeToExcel_def Let_def sheet_to_json_def json_to_sheet_def write_retries_workbook)

lemma updateExcelRow_workbook:
  "workbook (snd (updateExcelRow e index updates s)) =
     array_set (workbook s) index (spread (array_get (workbook s) index) updates)"
  by (simp add: updateExcelRow_def Let_def sheet_to_json_def json_to_sheet_def write_retries_workbook)

lemma updateExcelRow_result:
  "fst (updateExcelRow e index updates s) =
     (\<exists>k<MAX_WRITE_RETRIES. writeFileSync_ok e (writes s + k))"
  by (simp add: updateExcelRow_def Let_def write_retries_from)

text \<open>
  C8: \<open>updateExcelRow\<close> at a valid index keeps the number of records, every record at
  another index (hence the order), and every field of the target record that the update
  does not name; \<open>appendTradeToExcel\<close> keeps the existing records in place and adds the
  new one at the end.
\<close>

theorem ledger_order_stable:
  assumes "index < length (workbook s)"
  shows "length (workbook (snd (updateExcelRow e index updates s))) = length (workbook s) \<and>
    (\<forall>j. j \<noteq> index \<longrightarrow>
        workbook (snd (updateExcelRow e index updates s)) ! j = workbook s ! j) \<and>
    (\<forall>k. k \<notin> fst ` set updates \<longrightarrow>
        row_field (workbook (snd (updateExcelRow e index updates s)) ! index) k =
        row_field (workbook s ! index) k) \<and>
    workbook (snd (appendTradeToExcel e ata solAmount s)) = workbook s @ [new_trade ata solAmount]"
  using assms
  by (simp add: updateExcelRow_workbook appendTradeToExcel_workbook array_set_def array_get_def
      row_field_def field_def spread_frame)

theorem ledger_order_stable_witness:
  "(1::nat) < length (workbook sample_store) \<and>
   length (workbook (snd (updateExcelRow (sample_env True) 1 (refund_updates ''sig'') sample_store))) = 2 \<and>
   workbook (snd (updateExcelRow (sample_env True) 1 (refund_updates ''sig'') sample_store)) ! 0 =
     new_trade (JStr ''W1'') (JNum (Finite 1)) \<and>
   row_field (workbook (snd (updateExcelRow (sample_env True) 1 (refund_updates ''sig'') sample_store)) ! 1)
     ''ATA'' = JStr ''W2'' \<and>
   workbook (snd (appendTradeToExcel (sample_env True) (JStr ''W3'') (JNum (Finite 3)) sample_store)) =
     workbook sample_store @ [new_trade (JStr ''W3'') (JNum (Finite 3))]"
  using ledger_order_stable [of 1 sample_store "sample_env True" "refund_updates ''sig''"
      "JStr ''W3''" "JNum (Finite 3)"]
  by (simp add: sample_store_def new_trade_def refund_updates_def row_field_def field_def)

section \<open>Properties of the resolution\<close>

declare rateLimitedGetOwnerWallet.simps [simp del]
declare refund_loop.simps [simp del]

lemma rateLimitedGetOwnerWallet_result:
  "fst (rateLimitedGetOwnerWallet e now ataAddress l) = getOwnerWallet e ataAddress"
proof (induction e now ataAddress l rule: rateLimitedGetOwnerWallet.induct)
  case (1 e now ataAddress l)
  show ?case
  proof (cases "acquire now l")
    case (Pair r l1)
    show ?thesis
    proof (cases r)
      case Granted
      with Pair show ?thesis by (subst rateLimitedGetOwnerWallet.simps) simp
    next
      case (Wait d)
      with Pair "1.IH" [of "Wait d" l1 d] show ?thesis
        by (subst rateLimitedGetOwnerWallet.simps) simp
    qed
  qed
qed

lemma getOwnerWallet_returns: "\<exists>wallet. getOwnerWallet e ataAddress = Inr wallet"
  by (simp add: getOwnerWallet_def split: sum.splits)

lemma getOwnerWallet_cases:
  "getOwnerWallet e ataAddress = Inr ataAddress \<or>
   (\<exists>accountInfo. PublicKey_ok e ataAddress \<and> getAccountInfo e ataAddress = Inr (Some accountInfo) \<and>
      info_owner accountInfo \<in> set TOKEN_PROGRAM_IDS \<and>
      getOwnerWallet e ataAddress =
        Inr (JStr (PublicKey_toString e (take 32 (drop 32 (info_data accountInfo))))))"
  by (auto simp: getOwnerWallet_def getOwnerWallet_try_def split: sum.splits option.splits)

text \<open>
  C6: the resolution always returns a value, never an exception. It returns its input
  when the account does not exist, when the account's owner is not one of the two token
  programs, and when the fetch fails; a result other than the input is the owner key
  decoded from bytes 32 to 63 of a token account's data.
\<close>

theorem resolve_best_effort:
  "\<exists>wallet. fst (rateLimitedGetOwnerWallet e now ataAddress l) = Inr wallet \<and>
     (getAccountInfo e ataAddress = Inr None \<or>
      (\<exists>accountInfo. getAccountInfo e ataAddress = Inr (Some accountInfo) \<and>
         info_owner accountInfo \<notin> set TOKEN_PROGRAM_IDS) \<or>
      (\<exists>x. getAccountInfo e ataAddress = Inl x) \<longrightarrow> wallet = ataAddress) \<and>
     (wallet \<noteq> ataAddress \<longrightarrow>
        (\<exists>accountInfo. getAccountInfo e ataAddress = Inr (Some accountInfo) \<and>
           info_owner accountInfo \<in> set TOKEN_PROGRAM_IDS \<and>
           wallet = JStr (PublicKey_toString e (take 32 (drop 32 (info_data accountInfo))))))"
proof -
  obtain wallet where w: "getOwnerWallet e ataAddress = Inr wallet"
    using getOwnerWallet_returns by blast
  have r: "fst (rateLimitedGetOwnerWallet e now ataAddress l) = Inr wallet"
    using w by (simp add: rateLimitedGetOwnerWallet_result)
  have same: "wallet = ataAddress"
    if "getAccountInfo e ataAddress = Inr None \<or>
      (\<exists>accountInfo. getAccountInfo e ataAddress = Inr (Some accountInfo) \<and>
         info_owner accountInfo \<notin> set TOKEN_PROGRAM_IDS) \<or>
      (\<exists>x. getAccountInfo e ataAddress = Inl x)"
    using that w
    by (auto simp: getOwnerWallet_def getOwnerWallet_try_def split: if_splits)
  have other: "\<exists>accountInfo. getAccountInfo e ataAddress = Inr (Some accountInfo) \<and>
           info_owner accountInfo \<in> set TOKEN_PROGRAM_IDS \<and>
           wallet = JStr (PublicKey_toString e (take 32 (drop 32 (info_data accountInfo))))"
    if "wallet \<noteq> ataAddress"
    using that w getOwnerWallet_cases [of e ataAddress] by auto
  from r same other show ?thesis by blast
qed

theorem resolve_best_effort_witness:
  "fst (rateLimitedGetOwnerWallet no_account_env 500 (JStr ''W1'') \<lparr>requestCount = 9, lastResetTime = 0\<rparr>)
     = Inr (JStr ''W1'') \<and>
   fst (rateLimitedGetOwnerWallet failing_rpc_env 500 (JStr ''W1'') \<lparr>requestCount = 0, lastResetTime = 0\<rparr>)
     = Inr (JStr ''W1'') \<and>
   fst (rateLimitedGetOwnerWallet (sample_env True) 500 (JStr ''W1'') \<lparr>requestCount = 0, lastResetTime = 0\<rparr>)
     = Inr (JStr ''owner'') \<and>
   snd (rateLimitedGetOwnerWallet no_account_env 500 (JStr ''W1'') \<lparr>requestCount = 9, lastResetTime = 0\<rparr>)
     = \<lparr>requestCount = 1, lastResetTime = 1000\<rparr>"
proof -
  have none: "getAccountInfo no_account_env (JStr ''W1'') = Inr None"
    by (simp add: no_account_env_def)
  have fails: "getAccountInfo failing_rpc_env (JStr ''W1'') = Inl (Error ''fetch failed'')"
    by (simp add: failing_rpc_env_def)
  have a: "fst (rateLimitedGetOwnerWallet no_account_env 500 (JStr ''W1'') \<lparr>requestCount = 9, lastResetTime = 0\<rparr>)
     = Inr (JStr ''W1'')"
    using resolve_best_effort [of no_account_env 500 "JStr ''W1''" "\<lparr>requestCount = 9, lastResetTime = 0\<rparr>"] none
    by auto
  have b: "fst (rateLimitedGetOwnerWallet failing_rpc_env 500 (JStr ''W1'') \<lparr>requestCount = 0, lastResetTime = 0\<rparr>)
     = Inr (JStr ''W1'')"
    using resolve_best_effort [of failing_rpc_env 500 "JStr ''W1''" "\<lparr>requestCount = 0, lastResetTime = 0\<rparr>"] fails
    by auto
  have c: "fst (rateLimitedGetOwnerWallet (sample_env True) 500 (JStr ''W1'') \<lparr>requestCount = 0, lastResetTime = 0\<rparr>)
     = Inr (JStr ''owner'')"
    by (simp add: rateLimitedGetOwnerWallet_result getOwnerWallet_def getOwnerWallet_try_def
        sample_env_def token_account_def TOKEN_PROGRAM_IDS_def)
  have d: "snd (rateLimitedGetOwnerWallet no_account_env 500 (JStr ''W1'') \<lparr>requestCount = 9, lastResetTime = 0\<rparr>)
     = \<lparr>requestCount = 1, lastResetTime = 1000\<rparr>"
    by (simp add: rateLimitedGetOwnerWallet.simps acquire_def RATE_LIMIT_INTERVAL_def
        RATE_LIMIT_PER_SECOND_def no_account_env_def sample_env_def)
  from a b c d show ?thesis by simp
qed

section \<open>Properties of the refund cycle\<close>

lemma settle_effects:
  "length (transfers (settle e now i trade tb s l)) \<le> 1 \<and>
   length (updated (settle e now i trade tb s l)) \<le> 1 \<and>
   (store_after (settle e now i trade tb s l) = s \<and> updated (settle e now i trade tb s l) = [] \<or>
    (\<exists>signature. updated (settle e now i trade tb s l) = [(i, refund_updates signature)] \<and>
       store_after (settle e now i trade tb s l) = snd (updateExcelRow e i (refund_updates signature) s)))"
  by (auto simp: settle_def Let_def quiet_def rejected_def split: sum.splits prod.splits)

lemma settle_unaffordable:
  "parseFloat e (row_field trade ''sol_buy_amount'') = Inr a \<Longrightarrow>
   \<not> num_ge tb (requiredBalance a) \<Longrightarrow> settle e now i trade tb s l = quiet s l"
  by (simp add: settle_def)

lemma settle_only_affordable:
  "parseFloat e (row_field trade ''sol_buy_amount'') = Inr a \<Longrightarrow>
   transfers (settle e now i trade tb s l) \<noteq> [] \<or> updated (settle e now i trade tb s l) \<noteq> [] \<Longrightarrow>
   num_ge tb (requiredBalance a)"
  by (auto simp: settle_def Let_def quiet_def rejected_def split: sum.splits prod.splits if_splits)

lemma refund_loop_first_pending:
  "first_pending trades j \<Longrightarrow> i \<le> j \<Longrightarrow>
   refund_loop e now trades tb i s l = settle e now j (trades ! j) tb s l"
proof (induction e now trades tb i s l rule: refund_loop.induct)
  case (1 e now trades tb i s l)
  from "1.prems" have j: "j < length trades" "pending (trades ! j)"
    and before: "\<forall>k<j. \<not> pending (trades ! k)"
    by (auto simp: first_pending_def list_all_length)
  show ?case
  proof (cases "i = j")
    case True
    with j show ?thesis
      by (subst refund_loop.simps) (simp add: pending_def)
  next
    case False
    with "1.prems" have lt: "i < j" by simp
    with before have np: "\<not> pending (trades ! i)" by simp
    have "refund_loop e now trades tb i s l = refund_loop e now trades tb (i + 1) s l"
      using lt j np by (subst refund_loop.simps) (simp add: pending_def)
    also have "\<dots> = settle e now j (trades ! j) tb s l"
      using "1.IH" "1.prems"(1) lt j np by (simp add: pending_def)
    finally show ?thesis .
  qed
qed

lemma refund_loop_cases:
  "refund_loop e now trades tb i s l = quiet s l \<or>
   (\<exists>j. i \<le> j \<and> j < length trades \<and> refund_loop e now trades tb i s l = settle e now j (trades ! j) tb s l)"
proof (induction e now trades tb i s l rule: refund_loop.induct)
  case (1 e now trades tb i s l)
  show ?case
  proof (cases "i < length trades")
    case False
    then show ?thesis by (subst refund_loop.simps) simp
  next
    case True
    show ?thesis
    proof (cases "strict_eq (row_field (trades ! i) ''status'') (JNum (Finite 0))")
      case True
      with \<open>i < length trades\<close> have "refund_loop e now trades tb i s l = settle e now i (trades ! i) tb s l"
        by (subst refund_loop.simps) simp
      with \<open>i < length trades\<close> show ?thesis by blast
    next
      case False
      with \<open>i < length trades\<close> have step: "refund_loop e now trades tb i s l = refund_loop e now trades tb (i + 1) s l"
        by (subst refund_loop.simps) simp
      from "1.IH" [OF \<open>i < length trades\<close> False] show ?thesis
        unfolding step by (metis Suc_eq_plus1 Suc_leD)
    qed
  qed
qed

lemma processRefunds_cases:
  "(processRefunds e now s l = quiet s l \<or> (\<exists>x. processRefunds e now s l = rejected x s l)) \<or>
   (\<exists>j tb. j < length (workbook s) \<and> processRefunds e now s l = settle e now j (workbook s ! j) tb s l)"
  using refund_loop_cases [of e now "workbook s" _ 0 s l]
  by (auto simp: processRefunds_def Let_def sheet_to_json_def split: sum.splits)

lemma num_gt_not_ge: "num_gt a b \<Longrightarrow> \<not> num_ge b a"
  by (cases a; cases b) auto

lemma processRefunds_first_pending:
  assumes "ENABLE_REFUNDS e"
    and "getBalance e = Inr treasuryBalanceLamports"
    and "first_pending (workbook s) j"
  shows "processRefunds e now s l =
    settle e now j (workbook s ! j) (treasuryBalance treasuryBalanceLamports) s l"
proof -
  let ?tb = "treasuryBalance treasuryBalanceLamports"
  have "processRefunds e now s l = refund_loop e now (workbook s) ?tb 0 s l"
    using assms(1,2) by (simp add: processRefunds_def sheet_to_json_def)
  also have "\<dots> = settle e now j (workbook s ! j) ?tb s l"
    using refund_loop_first_pending [OF assms(3)] by simp
  finally show ?thesis .
qed

text \<open>Values of the double arithmetic that the examples use.\<close>

lemma balance_3: "treasuryBalance 3000000000 = Finite 3"
  unfolding treasuryBalance_def of_nat_numeral by code_simp

lemma balance_4: "treasuryBalance 4000000000 = Finite 4"
  unfolding treasuryBalance_def of_nat_numeral by code_simp

lemma balance_10: "treasuryBalance 10000000000 = Finite 10"
  unfolding treasuryBalance_def of_nat_numeral by code_simp

lemma balance_2_2: "treasuryBalance 2200000000 = Finite (2476979795053773 / 1125899906842624)"
  unfolding treasuryBalance_def of_nat_numeral by code_simp

lemma required_1: "requiredBalance (Finite 1) = Finite 4"
  unfolding requiredBalance_def by code_simp

lemma required_quarter: "requiredBalance (Finite (1 / 4)) = Finite (5 / 2)"
  unfolding requiredBalance_def by code_simp

lemma tenth_is_double: "round_double (1 / 10) = Finite (3602879701896397 / 36028797018963968)"
  by code_simp

lemma required_tenth:
  "requiredBalance (Finite (3602879701896397 / 36028797018963968)) =
     Finite (2476979795053773 / 1125899906842624)"
  unfolding requiredBalance_def by code_simp

lemma lamports_1: "Math_floor (num_mul (Finite 1) (Finite (10 ^ 9))) = Finite 1000000000"
  by code_simp

lemma round_double_1e9: "round_double 1000000000 = Finite 1000000000"
  by code_simp

lemma lamports_tenth:
  "Math_floor (num_mul (Finite (3602879701896397 / 36028797018963968)) (Finite (10 ^ 9))) =
     Finite 100000000"
  by code_simp

text \<open>
  C4: when the first pending record in ledger order needs more than the treasury holds,
  the cycle submits no transfer and updates no record, whatever the later records are.
  Both sides of the comparison are the doubles the program computes.
\<close>

theorem unaffordable_head_blocks_cycle:
  assumes "getBalance e = Inr treasuryBalanceLamports"
    and "first_pending (workbook s) j"
    and "parseFloat e (row_field (workbook s ! j) ''sol_buy_amount'') = Inr solBuyAmount"
    and "num_gt (requiredBalance solBuyAmount) (treasuryBalance treasuryBalanceLamports)"
  shows "transfers (processRefunds e now s l) = [] \<and>
    updated (processRefunds e now s l) = [] \<and>
    store_after (processRefunds e now s l) = s"
proof (cases "ENABLE_REFUNDS e")
  case False
  then show ?thesis by (simp add: processRefunds_def quiet_def)
next
  case True
  have short: "\<not> num_ge (treasuryBalance treasuryBalanceLamports) (requiredBalance solBuyAmount)"
    using assms(4) by (rule num_gt_not_ge)
  have "processRefunds e now s l = quiet s l"
    using processRefunds_first_pending [OF True assms(1,2)] settle_unaffordable [OF assms(3) short]
    by simp
  then show ?thesis by (simp add: quiet_def)
qed

lemma first_pending_sample: "first_pending (workbook sample_store) 0"
  by (simp add: first_pending_def sample_store_def pending_def new_trade_def row_field_def
      field_def strict_eq_def)

lemma amount_sample:
  "parseFloat e (row_field (workbook sample_store ! 0) ''sol_buy_amount'') = Inr (Finite 1)"
  by (simp add: parseFloat_def sample_store_def new_trade_def row_field_def field_def)

theorem unaffordable_head_blocks_cycle_witness:
  "getBalance (sample_env True) = Inr 3000000000 \<and>
   first_pending (workbook sample_store) 0 \<and>
   parseFloat (sample_env True) (row_field (workbook sample_store ! 0) ''sol_buy_amount'') = Inr (Finite 1) \<and>
   num_gt (requiredBalance (Finite 1)) (treasuryBalance 3000000000) \<and>
   num_ge (treasuryBalance 3000000000) (requiredBalance (Finite (1 / 4))) \<and>
   transfers (processRefunds (sample_env True) 0 sample_store \<lparr>requestCount = 0, lastResetTime = 0\<rparr>) = [] \<and>
   updated (processRefunds (sample_env True) 0 sample_store \<lparr>requestCount = 0, lastResetTime = 0\<rparr>) = [] \<and>
   store_after (processRefunds (sample_env True) 0 sample_store \<lparr>requestCount = 0, lastResetTime = 0\<rparr>) =
     sample_store"
proof -
  have b: "getBalance (sample_env True) = Inr 3000000000"
    by (simp add: sample_env_def)
  have g: "num_gt (requiredBalance (Finite 1)) (treasuryBalance 3000000000)"
    by (simp add: required_1 balance_3)
  have a: "num_ge (treasuryBalance 3000000000) (requiredBalance (Finite (1 / 4)))"
    by (simp add: required_quarter balance_3)
  from unaffordable_head_blocks_cycle [OF b first_pending_sample amount_sample g]
    b first_pending_sample amount_sample [of "sample_env True"] g a
  show ?thesis by simp
qed

lemma changed_rows_update:
  "i < length old \<Longrightarrow> length (changed_rows old (old[i := r])) \<le> 1"
proof -
  assume "i < length old"
  have "\<And>x. old[i := r] ! x \<noteq> old ! x \<Longrightarrow> x = i"
    by (metis nth_list_update_neq)
  then have "set (changed_rows old (old[i := r])) \<subseteq> {i}"
    by (auto simp: changed_rows_def)
  moreover have "distinct (changed_rows old (old[i := r]))"
    by (simp add: changed_rows_def)
  ultimately have "card (set (changed_rows old (old[i := r]))) \<le> card {i}"
    by (intro card_mono) auto
  then show ?thesis
    using \<open>distinct (changed_rows old (old[i := r]))\<close> by (simp add: distinct_card)
qed

lemma changed_rows_same: "changed_rows old old = []"
  by (simp add: changed_rows_def)

text \<open>
  C5: whatever the ledger and the balance, a cycle submits at most one transfer and calls
  \<open>updateExcelRow\<close> at most once; the sheet keeps its length and differs from the
  sheet before in at most one record.
\<close>

theorem one_settlement_per_cycle:
  "length (transfers (processRefunds e now s l)) \<le> 1 \<and>
   length (updated (processRefunds e now s l)) \<le> 1 \<and>
   length (workbook (store_after (processRefunds e now s l))) = length (workbook s) \<and>
   length (changed_rows (workbook s) (workbook (store_after (processRefunds e now s l)))) \<le> 1"
proof -
  consider (none) "processRefunds e now s l = quiet s l \<or> (\<exists>x. processRefunds e now s l = rejected x s l)"
    | (some) j tb where "j < length (workbook s)"
        "processRefunds e now s l = settle e now j (workbook s ! j) tb s l"
    using processRefunds_cases [of e now s l] by blast
  then show ?thesis
  proof cases
    case none
    then show ?thesis by (auto simp: quiet_def rejected_def changed_rows_same)
  next
    case some
    note eff = settle_effects [of e now j "workbook s ! j" tb s l]
    from eff consider "store_after (settle e now j (workbook s ! j) tb s l) = s"
      | signature where "store_after (settle e now j (workbook s ! j) tb s l) =
          snd (updateExcelRow e j (refund_updates signature) s)"
      by blast
    then have "length (workbook (store_after (settle e now j (workbook s ! j) tb s l))) = length (workbook s) \<and>
      length (changed_rows (workbook s) (workbook (store_after (settle e now j (workbook s ! j) tb s l)))) \<le> 1"
    proof cases
      case 1
      then show ?thesis by (simp add: changed_rows_same)
    next
      case 2
      with some(1) changed_rows_update [of j "workbook s"] show ?thesis
        by (simp add: updateExcelRow_workbook array_set_def)
    qed
    with eff some(2) show ?thesis by simp
  qed
qed

lemma processRefunds_rich:
  "processRefunds rich_env 0 sample_store \<lparr>requestCount = 0, lastResetTime = 0\<rparr> =
     \<lparr>thrown = None, transfers = [(JStr ''owner'', Finite 1000000000)],
      updated = [(0, refund_updates ''sig'')],
      store_after = snd (updateExcelRow rich_env 0 (refund_updates ''sig'') sample_store),
      limiter_after = \<lparr>requestCount = 1, lastResetTime = 0\<rparr>\<rparr>"
  by (simp add: processRefunds_def rich_env_def sample_env_def sheet_to_json_def
      refund_loop.simps [of _ _ _ _ 0] sample_store_def new_trade_def row_field_def field_def strict_eq_def
      settle_def parseFloat_def required_1 balance_10 round_double_1e9 rateLimitedGetOwnerWallet.simps acquire_def
      RATE_LIMIT_INTERVAL_def RATE_LIMIT_PER_SECOND_def getOwnerWallet_def getOwnerWallet_try_def
      token_account_def TOKEN_PROGRAM_IDS_def)

theorem one_settlement_per_cycle_witness:
  "length (transfers (processRefunds rich_env 0 sample_store \<lparr>requestCount = 0, lastResetTime = 0\<rparr>)) = 1 \<and>
   length (updated (processRefunds rich_env 0 sample_store \<lparr>requestCount = 0, lastResetTime = 0\<rparr>)) = 1 \<and>
   changed_rows (workbook sample_store)
     (workbook (store_after (processRefunds rich_env 0 sample_store \<lparr>requestCount = 0, lastResetTime = 0\<rparr>))) = [0] \<and>
   length (changed_rows (workbook sample_store)
     (workbook (store_after (processRefunds rich_env 0 sample_store \<lparr>requestCount = 0, lastResetTime = 0\<rparr>)))) \<le> 1"
proof -
  have rows: "changed_rows (workbook sample_store)
      (workbook (snd (updateExcelRow rich_env 0 (refund_updates ''sig'') sample_store))) = [0]"
    by (simp add: updateExcelRow_workbook changed_rows_def sample_store_def
        array_set_def array_get_def spread_def refund_updates_def new_trade_def)
  from one_settlement_per_cycle [of rich_env 0 sample_store "\<lparr>requestCount = 0, lastResetTime = 0\<rparr>"]
    rows
  show ?thesis by (simp add: processRefunds_rich)
qed

lemma settle_transfers:
  assumes "parseFloat e (row_field trade ''sol_buy_amount'') = Inr solBuyAmount"
    and "getOwnerWallet e (row_field trade ''ATA'') = Inr ownerWallet"
  shows "transfers (settle e now i trade tb s l) =
      (if num_ge tb (requiredBalance solBuyAmount) \<and>
          \<not> strict_eq ownerWallet (row_field trade ''ATA'') \<and> PublicKey_ok e ownerWallet
       then [(ownerWallet, Math_floor (num_mul solBuyAmount (Finite (10 ^ 9))))] else [])"
proof -
  obtain r l' where run: "rateLimitedGetOwnerWallet e now (row_field trade ''ATA'') l = (r, l')"
    by (cases "rateLimitedGetOwnerWallet e now (row_field trade ''ATA'') l")
  with rateLimitedGetOwnerWallet_result [of e now "row_field trade ''ATA''" l] assms(2)
  have r: "r = Inr ownerWallet" by simp
  show ?thesis
    using assms(1) run r
    by (auto simp: settle_def Let_def quiet_def split: sum.splits)
qed

text \<open>
  C7: for the pending record the cycle considers, the gate is
  \<open>treasuryBalance >= 2 + 2 * sol_buy_amount\<close>, in the doubles the program computes: a
  transfer is submitted exactly when the balance reaches that threshold and the
  resolution gives a usable wallet other than the recorded address, and a record is
  updated only after a transfer. With a balance of 3 and an amount of 1 the threshold is
  4 and nothing is settled.
\<close>

theorem required_balance_threshold:
  assumes "ENABLE_REFUNDS e"
    and "getBalance e = Inr treasuryBalanceLamports"
    and "first_pending (workbook s) j"
    and "parseFloat e (row_field (workbook s ! j) ''sol_buy_amount'') = Inr solBuyAmount"
    and "getOwnerWallet e (row_field (workbook s ! j) ''ATA'') = Inr ownerWallet"
  shows "transfers (processRefunds e now s l) =
      (if num_ge (treasuryBalance treasuryBalanceLamports)
            (num_add (Finite 2) (num_mul (Finite 2) solBuyAmount)) \<and>
          \<not> strict_eq ownerWallet (row_field (workbook s ! j) ''ATA'') \<and> PublicKey_ok e ownerWallet
       then [(ownerWallet, Math_floor (num_mul solBuyAmount (Finite (10 ^ 9))))] else []) \<and>
    (updated (processRefunds e now s l) \<noteq> [] \<longrightarrow> transfers (processRefunds e now s l) \<noteq> []) \<and>
    (solBuyAmount = Finite 1 \<and> treasuryBalanceLamports = 3000000000 \<longrightarrow>
       num_add (Finite 2) (num_mul (Finite 2) solBuyAmount) = Finite 4 \<and>
       treasuryBalance treasuryBalanceLamports = Finite 3 \<and>
       transfers (processRefunds e now s l) = [] \<and>
       updated (processRefunds e now s l) = [] \<and>
       store_after (processRefunds e now s l) = s)"
proof -
  let ?tb = "treasuryBalance treasuryBalanceLamports"
  let ?run = "settle e now j (workbook s ! j) ?tb s l"
  have run: "processRefunds e now s l = ?run"
    by (rule processRefunds_first_pending [OF assms(1,2,3)])
  have gate: "transfers ?run =
      (if num_ge ?tb (num_add (Finite 2) (num_mul (Finite 2) solBuyAmount)) \<and>
          \<not> strict_eq ownerWallet (row_field (workbook s ! j) ''ATA'') \<and> PublicKey_ok e ownerWallet
       then [(ownerWallet, Math_floor (num_mul solBuyAmount (Finite (10 ^ 9))))] else [])"
    using settle_transfers [OF assms(4,5)] by (simp add: requiredBalance_def)
  have after: "updated ?run \<noteq> [] \<longrightarrow> transfers ?run \<noteq> []"
    by (auto simp: settle_def Let_def quiet_def rejected_def split: sum.splits prod.splits)
  have scenario: "solBuyAmount = Finite 1 \<and> treasuryBalanceLamports = 3000000000 \<longrightarrow>
       num_add (Finite 2) (num_mul (Finite 2) solBuyAmount) = Finite 4 \<and>
       ?tb = Finite 3 \<and> transfers ?run = [] \<and> updated ?run = [] \<and> store_after ?run = s"
  proof
    assume c: "solBuyAmount = Finite 1 \<and> treasuryBalanceLamports = 3000000000"
    have four: "num_add (Finite 2) (num_mul (Finite 2) solBuyAmount) = Finite 4"
      using c required_1 by (simp add: requiredBalance_def)
    have three: "?tb = Finite 3"
      using c balance_3 by simp
    have "\<not> num_ge ?tb (requiredBalance solBuyAmount)"
      using four three by (simp add: requiredBalance_def)
    then have "?run = quiet s l"
      using settle_unaffordable [OF assms(4)] by simp
    with four three
    show "num_add (Finite 2) (num_mul (Finite 2) solBuyAmount) = Finite 4 \<and>
       ?tb = Finite 3 \<and> transfers ?run = [] \<and> updated ?run = [] \<and> store_after ?run = s"
      by (simp add: quiet_def)
  qed
  from gate after scenario show ?thesis unfolding run by blast
qed

lemma owner_sample: "getOwnerWallet (sample_env True) (JStr a) = Inr (JStr ''owner'')"
  by (simp add: getOwnerWallet_def getOwnerWallet_try_def sample_env_def token_account_def
      TOKEN_PROGRAM_IDS_def)

lemma owner_sample_balance: "getOwnerWallet ((sample_env True)\<lparr>getBalance := Inr n\<rparr>) (JStr a) = Inr (JStr ''owner'')"
  by (simp add: getOwnerWallet_def getOwnerWallet_try_def sample_env_def token_account_def
      TOKEN_PROGRAM_IDS_def)

theorem required_balance_threshold_witness:
  "ENABLE_REFUNDS (sample_env True) \<and>
   getBalance (sample_env True) = Inr 3000000000 \<and>
   first_pending (workbook sample_store) 0 \<and>
   parseFloat (sample_env True) (row_field (workbook sample_store ! 0) ''sol_buy_amount'') = Inr (Finite 1) \<and>
   getOwnerWallet (sample_env True) (row_field (workbook sample_store ! 0) ''ATA'') = Inr (JStr ''owner'') \<and>
   num_add (Finite 2) (num_mul (Finite 2) (Finite 1)) = Finite 4 \<and>
   treasuryBalance 3000000000 = Finite 3 \<and>
   transfers (processRefunds (sample_env True) 0 sample_store \<lparr>requestCount = 0, lastResetTime = 0\<rparr>) = [] \<and>
   updated (processRefunds (sample_env True) 0 sample_store \<lparr>requestCount = 0, lastResetTime = 0\<rparr>) = [] \<and>
   treasuryBalance 4000000000 = Finite 4 \<and>
   transfers (processRefunds ((sample_env True)\<lparr>getBalance := Inr 4000000000\<rparr>) 0 sample_store
                \<lparr>requestCount = 0, lastResetTime = 0\<rparr>) = [(JStr ''owner'', Finite 1000000000)] \<and>
   num_add (Finite 2) (num_mul (Finite 2) (Finite (3602879701896397 / 36028797018963968))) =
     treasuryBalance 2200000000 \<and>
   transfers (processRefunds ((sample_env True)\<lparr>getBalance := Inr 2200000000\<rparr>) 0
                (sample_store\<lparr>workbook :=
                   [new_trade (JStr ''W1'') (JNum (Finite (3602879701896397 / 36028797018963968)))]\<rparr>)
                \<lparr>requestCount = 0, lastResetTime = 0\<rparr>) = [(JStr ''owner'', Finite 100000000)]"
proof -
  let ?l = "\<lparr>requestCount = 0, lastResetTime = 0\<rparr>"
  let ?tenth = "Finite (3602879701896397 / 36028797018963968)"
  let ?s = "sample_store\<lparr>workbook := [new_trade (JStr ''W1'') (JNum ?tenth)]\<rparr>"
  have on: "ENABLE_REFUNDS (sample_env True)"
    and on': "\<And>n. ENABLE_REFUNDS ((sample_env True)\<lparr>getBalance := Inr n\<rparr>)"
    and b3: "getBalance (sample_env True) = Inr 3000000000"
    and ok: "\<And>n v. PublicKey_ok ((sample_env True)\<lparr>getBalance := Inr n\<rparr>) v"
    by (simp_all add: sample_env_def)
  have ata: "row_field (workbook sample_store ! 0) ''ATA'' = JStr ''W1''"
    by (simp add: sample_store_def new_trade_def row_field_def field_def)
  have own: "getOwnerWallet (sample_env True) (row_field (workbook sample_store ! 0) ''ATA'') = Inr (JStr ''owner'')"
    by (simp add: ata owner_sample)
  have own': "\<And>n. getOwnerWallet ((sample_env True)\<lparr>getBalance := Inr n\<rparr>)
       (row_field (workbook sample_store ! 0) ''ATA'') = Inr (JStr ''owner'')"
    by (simp add: ata owner_sample_balance)
  have other: "\<not> strict_eq (JStr ''owner'') (row_field (workbook sample_store ! 0) ''ATA'')"
    by (simp add: ata strict_eq_def)
  have four: "num_add (Finite 2) (num_mul (Finite 2) (Finite 1)) = Finite 4"
    using required_1 by (simp only: requiredBalance_def)
  have tenth: "num_add (Finite 2) (num_mul (Finite 2) ?tenth) = treasuryBalance 2200000000"
    using required_tenth balance_2_2 by (simp only: requiredBalance_def)
  have fp: "first_pending (workbook ?s) 0"
    by (simp add: first_pending_def pending_def new_trade_def row_field_def field_def strict_eq_def)
  have amt: "\<And>e. parseFloat e (row_field (workbook ?s ! 0) ''sol_buy_amount'') = Inr ?tenth"
    by (simp add: parseFloat_def new_trade_def row_field_def field_def)
  have ata2: "row_field (workbook ?s ! 0) ''ATA'' = JStr ''W1''"
    by (simp add: new_trade_def row_field_def field_def)
  have own2: "getOwnerWallet ((sample_env True)\<lparr>getBalance := Inr 2200000000\<rparr>)
       (row_field (workbook ?s ! 0) ''ATA'') = Inr (JStr ''owner'')"
    by (simp only: ata2 owner_sample_balance)
  have other2: "\<not> strict_eq (JStr ''owner'') (row_field (workbook ?s ! 0) ''ATA'')"
    by (simp add: new_trade_def row_field_def field_def strict_eq_def)
  note a = required_balance_threshold [OF on b3 first_pending_sample amount_sample own, of 0 ?l]
  have b4: "getBalance ((sample_env True)\<lparr>getBalance := Inr 4000000000\<rparr>) = Inr 4000000000"
    and b22: "getBalance ((sample_env True)\<lparr>getBalance := Inr 2200000000\<rparr>) = Inr 2200000000"
    by simp_all
  have g4: "num_ge (treasuryBalance 4000000000) (num_add (Finite 2) (num_mul (Finite 2) (Finite 1)))"
    by (simp only: four balance_4) simp
  have g22: "num_ge (treasuryBalance 2200000000) (num_add (Finite 2) (num_mul (Finite 2) ?tenth))"
    by (simp only: tenth balance_2_2) simp
  have b: "transfers (processRefunds ((sample_env True)\<lparr>getBalance := Inr 4000000000\<rparr>) 0 sample_store ?l) =
      [(JStr ''owner'', Finite 1000000000)]"
    using required_balance_threshold [OF on' b4 first_pending_sample amount_sample own', THEN conjunct1, of 0 ?l]
      g4 other ok [of 4000000000]
    by (simp only: lamports_1 if_True simp_thms)
  have c: "transfers (processRefunds ((sample_env True)\<lparr>getBalance := Inr 2200000000\<rparr>) 0 ?s ?l) =
      [(JStr ''owner'', Finite 100000000)]"
    using required_balance_threshold [OF on' b22 fp amt own2, THEN conjunct1, of 0 ?l]
      g22 other2 ok [of 2200000000]
    by (simp only: lamports_tenth if_True simp_thms)
  from a b c on b3 first_pending_sample amount_sample [of "sample_env True"] own four tenth balance_3 balance_4
  show ?thesis by simp
qed

section \<open>Properties of the message handler\<close>

lemma isl_then_do_get_prop:
  "isl (then_do (get_prop v k) f) = (nullish v \<or> isl (f (field v k)))"
  by (simp add: then_do_def get_prop_def)

lemma isl_then_do_Inr: "isl (then_do (Inr v) f) = isl (f v)"
  by (simp add: then_do_def)

lemma trade_fields_throws: "isl (trade_fields trade) = (\<not> wf_trade trade)"
  unfolding trade_fields_def wf_trade_def Let_def
  apply (simp add: isl_then_do_get_prop isl_then_do_Inr if_distrib [of "\<lambda>r. isl (then_do r _)"])
  apply blast
  done
   
lemma onTrade_throws: "isl (fst (onTrade e trade s)) = (\<not> wf_trade trade)"
  using trade_fields_throws [of trade]
  by (cases "trade_fields trade") (auto simp: onTrade_def split: prod.splits)

lemma onTrade_throws_store: "isl (fst (onTrade e trade s)) \<Longrightarrow> snd (onTrade e trade s) = s"
  by (cases "trade_fields trade") (auto simp: onTrade_def split: prod.splits)

lemma trade_fields_sample:
  "trade_fields (sample_trade buyer) =
     Inr (JStr buyer, JStr ''So11111111111111111111111111111111111111112'', JStr ''1.5'',
          JStr TARGET_MINT_ADDRESS)"
  by (simp add: trade_fields_def sample_trade_def then_do_def get_prop_def nullish_def field_def
      SOL_MINT_ADDRESSES_def)

section \<open>Properties of the dedup set\<close>

lemma appendTradeToExcel_uniqueWallets:
  "uniqueWallets (snd (appendTradeToExcel e ata solAmount s)) = uniqueWallets s"
  by (simp add: appendTradeToExcel_def Let_def write_retries_uniqueWallets)

lemma appendTradeToExcel_disk:
  "\<not> fst (appendTradeToExcel e ata solAmount s) \<Longrightarrow>
   disk (snd (appendTradeToExcel e ata solAmount s)) = disk s"
  by (simp add: appendTradeToExcel_def Let_def write_retries_disk)

lemma updateExcelRow_uniqueWallets:
  "uniqueWallets (snd (updateExcelRow e index updates s)) = uniqueWallets s"
  by (simp add: updateExcelRow_def Let_def write_retries_uniqueWallets)

lemma log_trade_known:
  "JStr buyer \<in> uniqueWallets s \<Longrightarrow>
   log_trade e (JStr buyer) solAmount buyMint s =
     (if strict_eq buyMint (JStr TARGET_MINT_ADDRESS) then (AlreadyLogged, s) else (MintMismatch, s))"
  by (simp add: log_trade_def uniqueWallets_has_def primitive_def truthy_def TARGET_MINT_ADDRESS_def)

lemma log_trade_new:
  assumes "num_gt (to_number e solAmount) (Finite 0)" and "JStr buyer \<notin> uniqueWallets s"
  shows "log_trade e (JStr buyer) solAmount (JStr TARGET_MINT_ADDRESS) s =
     (if fst (appendTradeToExcel e (JStr buyer) solAmount
                (s\<lparr>uniqueWallets := insert (JStr buyer) (uniqueWallets s)\<rparr>))
      then Logged else AppendFailed,
      snd (appendTradeToExcel e (JStr buyer) solAmount
             (s\<lparr>uniqueWallets := insert (JStr buyer) (uniqueWallets s)\<rparr>)))"
  using assms
  by (auto simp: log_trade_def uniqueWallets_has_def strict_eq_def Let_def split: prod.splits bool.splits)

text \<open>
  C1 (amended): when a trade of a buyer that is not yet in \<open>uniqueWallets\<close> qualifies
  and the append returns false, the buyer stays in \<open>uniqueWallets\<close> (nothing is rolled
  back), the file is unchanged, the record stays in the sheet in memory, and every later
  event of that buyer is skipped without touching the store.
\<close>

theorem failed_append_keeps_address:
  assumes fields: "trade_fields trade = Inr (JStr buyer, sellCurrency, solAmount, JStr TARGET_MINT_ADDRESS)"
    and paid: "num_gt (to_number e solAmount) (Finite 0)"
    and new: "JStr buyer \<notin> uniqueWallets s"
    and fails: "\<not> fst (appendTradeToExcel e (JStr buyer) solAmount
                        (s\<lparr>uniqueWallets := insert (JStr buyer) (uniqueWallets s)\<rparr>))"
  shows "fst (onTrade e trade s) = Inr AppendFailed \<and>
     JStr buyer \<in> uniqueWallets (snd (onTrade e trade s)) \<and>
     disk (snd (onTrade e trade s)) = disk s \<and>
     workbook (snd (onTrade e trade s)) = workbook s @ [new_trade (JStr buyer) solAmount] \<and>
     (\<forall>e' trade' sellCurrency' solAmount' buyMint'.
        trade_fields trade' = Inr (JStr buyer, sellCurrency', solAmount', buyMint') \<longrightarrow>
        snd (onTrade e' trade' (snd (onTrade e trade s))) = snd (onTrade e trade s) \<and>
        (fst (onTrade e' trade' (snd (onTrade e trade s))) = Inr AlreadyLogged \<or>
         fst (onTrade e' trade' (snd (onTrade e trade s))) = Inr MintMismatch))"
proof -
  let ?s1 = "s\<lparr>uniqueWallets := insert (JStr buyer) (uniqueWallets s)\<rparr>"
  let ?s2 = "snd (appendTradeToExcel e (JStr buyer) solAmount ?s1)"
  have run: "onTrade e trade s = (Inr AppendFailed, ?s2)"
    using fields fails log_trade_new [OF paid new] by (simp add: onTrade_def)
  have member: "JStr buyer \<in> uniqueWallets ?s2"
    by (simp add: appendTradeToExcel_uniqueWallets)
  have d: "disk ?s2 = disk s"
    using appendTradeToExcel_disk [OF fails] by simp
  have w: "workbook ?s2 = workbook s @ [new_trade (JStr buyer) solAmount]"
    by (simp add: appendTradeToExcel_workbook)
  have later: "snd (onTrade e' trade' ?s2) = ?s2 \<and>
        (fst (onTrade e' trade' ?s2) = Inr AlreadyLogged \<or> fst (onTrade e' trade' ?s2) = Inr MintMismatch)"
    if "trade_fields trade' = Inr (JStr buyer, sellCurrency', solAmount', buyMint')"
    for e' trade' sellCurrency' solAmount' buyMint'
    using that log_trade_known [OF member, of e' solAmount' buyMint']
    by (simp add: onTrade_def)
  from run member d w later show ?thesis by simp
qed

lemma append_fails_sample:
  "\<not> fst (appendTradeToExcel (sample_env False) (JStr ''W1'') (JStr ''1.5'')
            (empty_store\<lparr>uniqueWallets := insert (JStr ''W1'') (uniqueWallets empty_store)\<rparr>))"
  by (simp add: appendTradeToExcel_def Let_def write_retries_from sample_env_def)

lemma onTrade_failed_sample:
  "onTrade (sample_env False) (sample_trade ''W1'') empty_store =
     (Inr AppendFailed,
      \<lparr>workbook = [new_trade (JStr ''W1'') (JStr ''1.5'')], disk = Some [],
       uniqueWallets = {JStr ''W1''}, writes = 3\<rparr>)"
  by (simp add: onTrade_def trade_fields_sample log_trade_def truthy_def strict_eq_def
      uniqueWallets_has_def primitive_def empty_store_def to_number_def sample_env_def
      appendTradeToExcel_def sheet_to_json_def json_to_sheet_def write_retries.simps
      writeFileSync_def MAX_WRITE_RETRIES_def TARGET_MINT_ADDRESS_def)

text \<open>
  C1 (as stated): after a failed append the buyer is removed from \<open>uniqueWallets\<close> and a
  later duplicate is accepted. With every write failing, the buyer \<open>W1\<close> is in the set
  after the event although the file has no record, and the same event delivered again
  under writes that succeed is skipped as already logged.
\<close>

theorem rollback_counterexample:
  "JStr ''W1'' \<notin> uniqueWallets empty_store \<and>
   \<not> fst (appendTradeToExcel (sample_env False) (JStr ''W1'') (JStr ''1.5'')
            (empty_store\<lparr>uniqueWallets := insert (JStr ''W1'') (uniqueWallets empty_store)\<rparr>)) \<and>
   JStr ''W1'' \<in> uniqueWallets (snd (onTrade (sample_env False) (sample_trade ''W1'') empty_store)) \<and>
   disk (snd (onTrade (sample_env False) (sample_trade ''W1'') empty_store)) = Some [] \<and>
   onTrade (sample_env True) (sample_trade ''W1'')
     (snd (onTrade (sample_env False) (sample_trade ''W1'') empty_store)) =
     (Inr AlreadyLogged, snd (onTrade (sample_env False) (sample_trade ''W1'') empty_store))"
proof -
  have later: "onTrade (sample_env True) (sample_trade ''W1'')
      \<lparr>workbook = [new_trade (JStr ''W1'') (JStr ''1.5'')], disk = Some [],
       uniqueWallets = {JStr ''W1''}, writes = 3\<rparr> =
     (Inr AlreadyLogged,
      \<lparr>workbook = [new_trade (JStr ''W1'') (JStr ''1.5'')], disk = Some [],
       uniqueWallets = {JStr ''W1''}, writes = 3\<rparr>)"
    by (simp add: onTrade_def trade_fields_sample log_trade_def truthy_def strict_eq_def
      uniqueWallets_has_def primitive_def TARGET_MINT_ADDRESS_def)
  have fresh: "JStr ''W1'' \<notin> uniqueWallets empty_store"
    by (simp add: empty_store_def)
  from fresh append_fails_sample later show ?thesis
    by (simp add: onTrade_failed_sample)
qed

theorem failed_append_keeps_address_witness:
  "trade_fields (sample_trade ''W1'') =
     Inr (JStr ''W1'', JStr ''So11111111111111111111111111111111111111112'', JStr ''1.5'',
          JStr TARGET_MINT_ADDRESS) \<and>
   num_gt (to_number (sample_env False) (JStr ''1.5'')) (Finite 0) \<and>
   JStr ''W1'' \<notin> uniqueWallets empty_store \<and>
   \<not> fst (appendTradeToExcel (sample_env False) (JStr ''W1'') (JStr ''1.5'')
            (empty_store\<lparr>uniqueWallets := insert (JStr ''W1'') (uniqueWallets empty_store)\<rparr>)) \<and>
   fst (onTrade (sample_env False) (sample_trade ''W1'') empty_store) = Inr AppendFailed \<and>
   JStr ''W1'' \<in> uniqueWallets (snd (onTrade (sample_env False) (sample_trade ''W1'') empty_store)) \<and>
   disk (snd (onTrade (sample_env False) (sample_trade ''W1'') empty_store)) = disk empty_store \<and>
   snd (onTrade (sample_env True) (sample_trade ''W1'')
          (snd (onTrade (sample_env False) (sample_trade ''W1'') empty_store))) =
     snd (onTrade (sample_env False) (sample_trade ''W1'') empty_store)"
proof -
  have paid: "num_gt (to_number (sample_env False) (JStr ''1.5'')) (Finite 0)"
    by (simp add: to_number_def sample_env_def)
  have fresh: "JStr ''W1'' \<notin> uniqueWallets empty_store"
    by (simp add: empty_store_def)
  note t = failed_append_keeps_address [OF trade_fields_sample paid fresh append_fails_sample]
  from t have "snd (onTrade (sample_env True) (sample_trade ''W1'')
          (snd (onTrade (sample_env False) (sample_trade ''W1'') empty_store))) =
     snd (onTrade (sample_env False) (sample_trade ''W1'') empty_store)"
    using trade_fields_sample [of "''W1''"] by blast
  with t trade_fields_sample [of "''W1''"] paid fresh append_fails_sample show ?thesis
    by simp
qed


end
